theory Spec2Isabelle
  imports Main "HOL-Library.Word"
begin

section \<open>Data model of main.go\<close>

text \<open>
  The program is a single Go file. Everything it imports (the package-URL parser, the
  registry reference parser, the SBOM decoder, the registry client and the image
  mutators of go-containerregistry) lies outside the repository. The parsers, the decoder
  and the registry client are taken as parameters, collected in the record \<open>extern\<close>;
  the image value and its mutators are modelled as a record of the manifest fields the
  program sets, each mutator writing the one field its name says.
\<close>

type_synonym bytes = "8 word list"

text \<open>A Go \<open>error\<close> value, carried by its message.\<close>

datatype error = Errorf string

text \<open>\<open>purl.PackageURL\<close>: the fields \<open>repoFromPurl\<close> reads. \<open>Qualifiers_Map\<close> is the
  value of \<open>p.Qualifiers.Map()\<close>.\<close>

record PackageURL =
  Version :: string
  Qualifiers_Map :: "string \<rightharpoonup> string"

text \<open>\<open>name.Digest\<close>, through the accessors the program calls.\<close>

record name_Digest =
  RegistryStr :: string
  RepositoryStr :: string
  DigestStr :: string

text \<open>\<open>v1.Hash\<close> and its \<open>String()\<close>.\<close>

record Hash =
  Algorithm :: string
  Hex :: string

definition Hash_String :: "Hash \<Rightarrow> string" where
  "Hash_String h = Algorithm h @ '':'' @ Hex h"

text \<open>\<open>v1.Descriptor\<close>: media type, size and digest.\<close>

record Descriptor =
  MediaType :: string
  Size :: int
  Digest :: Hash

text \<open>A layer made by \<open>static.NewLayer\<close>: its content and its media type.\<close>

record Layer =
  layer_content :: bytes
  layer_mediaType :: string

definition static_NewLayer :: "bytes \<Rightarrow> string \<Rightarrow> Layer" where
  "static_NewLayer b mt = \<lparr>layer_content = b, layer_mediaType = mt\<rparr>"

definition OCIUncompressedLayer :: string where
  "OCIUncompressedLayer = ''application/vnd.oci.image.layer.v1.tar''"

text \<open>\<open>v1.Image\<close>, as the manifest it serialises to.\<close>

record Image =
  manifest_mediaType :: string
  config_mediaType :: string
  layers :: "Layer list"
  manifest_annotations :: "string \<rightharpoonup> string"
  subject :: "Descriptor option"

text \<open>\<open>empty.Image\<close>: a Docker schema 2 manifest with no layer, no annotation and no
  subject. The program overwrites both media types.\<close>

definition empty_Image :: Image where
  "empty_Image =
     \<lparr>manifest_mediaType = ''application/vnd.docker.distribution.manifest.v2+json'',
      config_mediaType = ''application/vnd.docker.container.image.v1+json'',
      layers = [],
      manifest_annotations = Map.empty,
      subject = None\<rparr>"

text \<open>\<open>sbom.Format\<close>: the two values the program switches on, and any other value with
  the string it prints as.\<close>

datatype Format = FormatCycloneDXJSON | FormatSPDXJSON | FormatOther string

text \<open>The decoded documents, restricted to the fields the program reads. Pointers are
  taken to be non-nil.\<close>

record cdx_Component =
  BOMRef :: string

record cdx_Metadata =
  Component :: cdx_Component

record cdx_BOM =
  Metadata :: cdx_Metadata

record PackageExternalReference2_2 =
  Category :: string
  Locator :: string

record Package2_2 =
  PackageName :: string
  PackageExternalReferences :: "PackageExternalReference2_2 list"

record CreationInfo2_2 =
  DocumentName :: string

text \<open>\<open>Packages\<close> is a Go map from element identifiers to packages; the external
  references of a package are a slice.\<close>

type_synonym ElementID = string

record Document2_2 =
  CreationInfo :: CreationInfo2_2
  Packages :: "ElementID \<rightharpoonup> Package2_2"

record SBOM =
  CycloneDX :: cdx_BOM
  SPDX :: Document2_2

text \<open>The external collaborators. \<open>append_validate\<close> is the check with which
  \<open>mutate.Append\<close> may reject a layer; \<open>remote_Write\<close> is the push.
  \<open>range_Packages\<close> is the Go runtime's part in \<open>range spdx.Packages\<close>: the order in
  which this run visits the keys of the map. Go does not fix that order, and it differs from
  one call to the next.\<close>

record extern =
  purl_FromString :: "string \<Rightarrow> error + PackageURL"
  name_NewDigest :: "string \<Rightarrow> error + name_Digest"
  sbom_DetectFormat :: "bytes \<Rightarrow> error + Format"
  sbom_Decode :: "bytes \<Rightarrow> Format \<Rightarrow> error + SBOM"
  remote_Head :: "name_Digest \<Rightarrow> error + Descriptor"
  append_validate :: "Layer \<Rightarrow> error option"
  image_Digest :: "Image \<Rightarrow> error + Hash"
  remote_Write :: "name_Digest \<Rightarrow> Image \<Rightarrow> error option"
  range_Packages :: "(ElementID \<rightharpoonup> Package2_2) \<Rightarrow> ElementID list"

text \<open>An \<open>io.Reader\<close> is what \<open>io.ReadAll\<close> gets from it: all its bytes, or an error.\<close>

type_synonym Reader = "error + bytes"

definition io_ReadAll :: "Reader \<Rightarrow> error + bytes" where
  "io_ReadAll r = r"

section \<open>Constants\<close>

definition annotationKeyDescription :: string where
  "annotationKeyDescription = ''org.opencontainers.artifact.description''"

definition mediaKeyCycloneDX :: string where
  "mediaKeyCycloneDX = ''application/vnd.cyclonedx+json''"

definition mediaKeySPDX :: string where
  "mediaKeySPDX = ''application/spdx+json''"

section \<open>The referrer and its image\<close>

record referrer =
  annotations :: "string \<rightharpoonup> string"
  mediaType :: string
  bytes :: bytes
  targetRepo :: name_Digest
  targetDesc :: Descriptor

text \<open>The mutators of go-containerregistry. \<open>mutate.Append\<close> rejects the layer or adds
  it after the base's layers; \<open>mutate.Annotations\<close> lays the given annotations over the
  base's.\<close>

definition mutate_Append :: "extern \<Rightarrow> Image \<Rightarrow> Layer \<Rightarrow> error + Image" where
  "mutate_Append ext base l =
     (case append_validate ext l of
        Some err \<Rightarrow> Inl err
      | None \<Rightarrow> Inr (base\<lparr>layers := layers base @ [l]\<rparr>))"

definition mutate_MediaType :: "Image \<Rightarrow> string \<Rightarrow> Image" where
  "mutate_MediaType img mt = img\<lparr>manifest_mediaType := mt\<rparr>"

definition mutate_ConfigMediaType :: "Image \<Rightarrow> string \<Rightarrow> Image" where
  "mutate_ConfigMediaType img mt = img\<lparr>config_mediaType := mt\<rparr>"

definition mutate_Annotations :: "Image \<Rightarrow> (string \<rightharpoonup> string) \<Rightarrow> Image" where
  "mutate_Annotations img anns = img\<lparr>manifest_annotations := manifest_annotations img ++ anns\<rparr>"

definition mutate_Subject :: "Image \<Rightarrow> Descriptor \<Rightarrow> Image" where
  "mutate_Subject img d = img\<lparr>subject := Some d\<rparr>"

text \<open>\<open>func (r *referrer) Image() (v1.Image, error)\<close>\<close>

definition referrer_Image :: "extern \<Rightarrow> referrer \<Rightarrow> error + Image" where
  "referrer_Image ext r =
     (case mutate_Append ext empty_Image (static_NewLayer (bytes r) OCIUncompressedLayer) of
        Inl err \<Rightarrow> Inl err
      | Inr img0 \<Rightarrow>
          (let img1 = mutate_MediaType img0 (MediaType (targetDesc r));
               img2 = mutate_ConfigMediaType img1 (mediaType r);
               img3 = mutate_Annotations img2 (annotations r);
               img4 = mutate_Subject img3 (targetDesc r)
           in Inr img4))"

text \<open>\<open>func (r *referrer) Tag(img v1.Image) (name.Digest, error)\<close>\<close>

definition referrer_Tag :: "extern \<Rightarrow> referrer \<Rightarrow> Image \<Rightarrow> error + name_Digest" where
  "referrer_Tag ext r img =
     (case image_Digest ext img of
        Inl err \<Rightarrow> Inl err
      | Inr digest \<Rightarrow>
          (case name_NewDigest ext
                  (RegistryStr (targetRepo r) @ ''/'' @ RepositoryStr (targetRepo r) @ ''@'' @
                   Hash_String digest) of
             Inl err \<Rightarrow> Inl err
           | Inr tag \<Rightarrow> Inr tag))"

section \<open>Resolving the target repository\<close>

text \<open>Indexing a Go \<open>map[string]string\<close>: the empty string for a missing key.\<close>

definition map_index :: "(string \<rightharpoonup> string) \<Rightarrow> string \<Rightarrow> string" where
  "map_index m k = (case m k of None \<Rightarrow> [] | Some v \<Rightarrow> v)"

definition repoFromPurl :: "extern \<Rightarrow> string \<Rightarrow> error + name_Digest" where
  "repoFromPurl ext purlStr =
     (case purl_FromString ext purlStr of
        Inl err \<Rightarrow> Inl err
      | Inr p \<Rightarrow>
          (let url = map_index (Qualifiers_Map p) ''repository_url'' in
           if url = [] then Inl (Errorf ''repository_url not found'')
           else (case name_NewDigest ext (url @ ''@'' @ Version p) of
                   Inl err \<Rightarrow> Inl err
                 | Inr digest \<Rightarrow> Inr digest)))"

text \<open>The two loops of \<open>repoFromSpdx\<close>, each over the values in the order in which they
  are visited. Each returns \<open>Some\<close> when the loop body returns from the function and
  \<open>None\<close> when the loop runs to its end.\<close>

fun refs_loop :: "extern \<Rightarrow> PackageExternalReference2_2 list \<Rightarrow> (error + name_Digest) option" where
  "refs_loop ext [] = None"
| "refs_loop ext (ref # refs) =
     (if Category ref = ''PACKAGE-MANAGER'' then Some (repoFromPurl ext (Locator ref))
      else refs_loop ext refs)"

fun pkgs_loop :: "extern \<Rightarrow> string \<Rightarrow> Package2_2 list \<Rightarrow> (error + name_Digest) option" where
  "pkgs_loop ext docName [] = None"
| "pkgs_loop ext docName (pkg # pkgs) =
     (if PackageName pkg = docName then
        (case refs_loop ext (PackageExternalReferences pkg) of
           Some res \<Rightarrow> Some res
         | None \<Rightarrow> pkgs_loop ext docName pkgs)
      else pkgs_loop ext docName pkgs)"

text \<open>What a \<open>range\<close> over a map promises: every key is visited, and visited once.\<close>

definition range_visits :: "('k \<rightharpoonup> 'v) \<Rightarrow> 'k list \<Rightarrow> bool" where
  "range_visits m ks = (distinct ks \<and> set ks = dom m)"

text \<open>The values that the loop body sees, in the order of the visit.\<close>

fun range_values :: "('k \<rightharpoonup> 'v) \<Rightarrow> 'k list \<Rightarrow> 'v list" where
  "range_values m [] = []"
| "range_values m (k # ks) =
     (case m k of None \<Rightarrow> range_values m ks | Some v \<Rightarrow> v # range_values m ks)"

definition repoFromSpdx :: "extern \<Rightarrow> Document2_2 \<Rightarrow> error + name_Digest" where
  "repoFromSpdx ext spdx =
     (case pkgs_loop ext (DocumentName (CreationInfo spdx))
             (range_values (Packages spdx) (range_Packages ext (Packages spdx))) of
        Some res \<Rightarrow> res
      | None \<Rightarrow> Inl (Errorf ''not found: repo uri''))"

section \<open>The pipeline\<close>

text \<open>The \<open>switch\<close> yields the repository, the annotations and the media type, or
  returns early; the \<open>default\<close> case formats the value with \<open>%s\<close>.\<close>

definition referrerFromSBOM :: "extern \<Rightarrow> Reader \<Rightarrow> error + referrer" where
  "referrerFromSBOM ext r =
     (case io_ReadAll r of
        Inl err \<Rightarrow> Inl err
      | Inr b \<Rightarrow>
     (case sbom_DetectFormat ext b of
        Inl err \<Rightarrow> Inl err
      | Inr format \<Rightarrow>
     (case sbom_Decode ext b format of
        Inl err \<Rightarrow> Inl err
      | Inr decoded \<Rightarrow>
     (case (case format of
              FormatCycloneDXJSON \<Rightarrow>
                (case repoFromPurl ext (BOMRef (Component (Metadata (CycloneDX decoded)))) of
                   Inl err \<Rightarrow> Inl err
                 | Inr repo \<Rightarrow>
                     Inr (repo, [annotationKeyDescription \<mapsto> ''CycloneDX JSON SBOM''],
                          mediaKeyCycloneDX))
            | FormatSPDXJSON \<Rightarrow>
                (case repoFromSpdx ext (SPDX decoded) of
                   Inl err \<Rightarrow> Inl err
                 | Inr repo \<Rightarrow>
                     Inr (repo, [annotationKeyDescription \<mapsto> ''SPDX JSON SBOM''],
                          mediaKeySPDX))
            | FormatOther s \<Rightarrow>
                Inl (Errorf (''unsupported format: '' @ s))) of
        Inl err \<Rightarrow> Inl err
      | Inr (repo, anns, mt) \<Rightarrow>
     (case remote_Head ext repo of
        Inl err \<Rightarrow> Inl err
      | Inr desc \<Rightarrow>
          Inr \<lparr>annotations = anns, mediaType = mt, bytes = b,
               targetRepo = repo, targetDesc = desc\<rparr>)))))"

text \<open>\<open>putReferrer\<close> returns its error (\<open>None\<close> for \<open>nil\<close>) and the calls of
  \<open>remote.Write\<close> it made, in order.\<close>

definition putReferrer :: "extern \<Rightarrow> Reader \<Rightarrow> error option \<times> (name_Digest \<times> Image) list" where
  "putReferrer ext r =
     (case referrerFromSBOM ext r of
        Inl err \<Rightarrow> (Some err, [])
      | Inr ref \<Rightarrow>
     (case referrer_Image ext ref of
        Inl err \<Rightarrow> (Some err, [])
      | Inr img \<Rightarrow>
     (case referrer_Tag ext ref img of
        Inl err \<Rightarrow> (Some err, [])
      | Inr tag \<Rightarrow>
          (case remote_Write ext tag img of
             Some err \<Rightarrow> (Some err, [(tag, img)])
           | None \<Rightarrow> (None, [(tag, img)])))))"

section \<open>Example collaborators and documents\<close>

text \<open>
  A small instance of the collaborators, and documents for it, on which the theorems below
  are evaluated. The registry knows the repository \<open>reg.io/org/img\<close>; the variants each
  make one collaborator fail.
\<close>

text \<open>Names for the long strings of the examples.\<close>

abbreviation example_purl :: string where
  "example_purl \<equiv> ''pkg:oci/img@sha256:aaaaaaaaaaaaaaaaaaaaaaaaaaaaaaaaaaaaaaaaaaaaaaaaaaaaaaaaaaaaaaaa?repository_url=reg.io/org/img''"

abbreviation example_purl_old :: string where
  "example_purl_old \<equiv> ''pkg:oci/old@sha256:bbbbbbbbbbbbbbbbbbbbbbbbbbbbbbbbbbbbbbbbbbbbbbbbbbbbbbbbbbbbbbbb?repository_url=reg.io/org/old''"

abbreviation example_purl_bare :: string where
  "example_purl_bare \<equiv> ''pkg:oci/img@sha256:aaaaaaaaaaaaaaaaaaaaaaaaaaaaaaaaaaaaaaaaaaaaaaaaaaaaaaaaaaaaaaaa''"

abbreviation example_reference :: string where
  "example_reference \<equiv> ''reg.io/org/img@sha256:aaaaaaaaaaaaaaaaaaaaaaaaaaaaaaaaaaaaaaaaaaaaaaaaaaaaaaaaaaaaaaaa''"

abbreviation example_reference_old :: string where
  "example_reference_old \<equiv> ''reg.io/org/old@sha256:bbbbbbbbbbbbbbbbbbbbbbbbbbbbbbbbbbbbbbbbbbbbbbbbbbbbbbbbbbbbbbbb''"

abbreviation example_reference_tag :: string where
  "example_reference_tag \<equiv> ''reg.io/org/img@sha256:cccccccccccccccccccccccccccccccccccccccccccccccccccccccccccccccc''"

abbreviation example_digest :: string where
  "example_digest \<equiv> ''sha256:aaaaaaaaaaaaaaaaaaaaaaaaaaaaaaaaaaaaaaaaaaaaaaaaaaaaaaaaaaaaaaaa''"

abbreviation example_digest_old :: string where
  "example_digest_old \<equiv> ''sha256:bbbbbbbbbbbbbbbbbbbbbbbbbbbbbbbbbbbbbbbbbbbbbbbbbbbbbbbbbbbbbbbb''"

abbreviation example_digest_tag :: string where
  "example_digest_tag \<equiv> ''sha256:cccccccccccccccccccccccccccccccccccccccccccccccccccccccccccccccc''"

abbreviation example_hex :: string where
  "example_hex \<equiv> ''aaaaaaaaaaaaaaaaaaaaaaaaaaaaaaaaaaaaaaaaaaaaaaaaaaaaaaaaaaaaaaaa''"

abbreviation example_hex_tag :: string where
  "example_hex_tag \<equiv> ''cccccccccccccccccccccccccccccccccccccccccccccccccccccccccccccccc''"

abbreviation example_target :: name_Digest where
  "example_target \<equiv>
     \<lparr>RegistryStr = ''reg.io'', RepositoryStr = ''org/img'', DigestStr = example_digest\<rparr>"

abbreviation example_target_old :: name_Digest where
  "example_target_old \<equiv>
     \<lparr>RegistryStr = ''reg.io'', RepositoryStr = ''org/old'', DigestStr = example_digest_old\<rparr>"

abbreviation example_tag :: name_Digest where
  "example_tag \<equiv>
     \<lparr>RegistryStr = ''reg.io'', RepositoryStr = ''org/img'', DigestStr = example_digest_tag\<rparr>"

definition example_FromString :: "string \<Rightarrow> error + PackageURL" where
  "example_FromString s =
     (if s = example_purl then
        Inr \<lparr>Version = example_digest, Qualifiers_Map = [''repository_url'' \<mapsto> ''reg.io/org/img'']\<rparr>
      else if s = example_purl_old then
        Inr \<lparr>Version = example_digest_old, Qualifiers_Map = [''repository_url'' \<mapsto> ''reg.io/org/old'']\<rparr>
      else if s = example_purl_bare then
        Inr \<lparr>Version = example_digest, Qualifiers_Map = Map.empty\<rparr>
      else if s = ''pkg:apk/alpine/musl@1.2.3-r0'' then
        Inr \<lparr>Version = ''1.2.3-r0'', Qualifiers_Map = Map.empty\<rparr>
      else Inl (Errorf ''purl is missing type or name''))"

definition example_NewDigest :: "string \<Rightarrow> error + name_Digest" where
  "example_NewDigest s =
     (if s = example_reference then
        Inr example_target
      else if s = example_reference_old then
        Inr example_target_old
      else if s = example_reference_tag then
        Inr example_tag
      else Inl (Errorf ''could not parse reference''))"

definition example_cdx :: cdx_BOM where
  "example_cdx =
     \<lparr>Metadata = \<lparr>Component =
        \<lparr>BOMRef = example_purl\<rparr>\<rparr>\<rparr>"

definition example_pkg_musl :: Package2_2 where
  "example_pkg_musl =
     \<lparr>PackageName = ''musl'', PackageExternalReferences =
        [\<lparr>Category = ''PACKAGE-MANAGER'', Locator = ''pkg:apk/alpine/musl@1.2.3-r0''\<rparr>]\<rparr>"

definition example_pkg_img :: Package2_2 where
  "example_pkg_img =
     \<lparr>PackageName = ''img'', PackageExternalReferences =
        [\<lparr>Category = ''SECURITY'', Locator = ''cpe:2.3:a:img''\<rparr>,
         \<lparr>Category = ''PACKAGE-MANAGER'',
          Locator = example_purl\<rparr>]\<rparr>"

definition example_pkg_old :: Package2_2 where
  "example_pkg_old =
     \<lparr>PackageName = ''img'', PackageExternalReferences =
        [\<lparr>Category = ''PACKAGE-MANAGER'',
          Locator = example_purl_old\<rparr>]\<rparr>"

definition example_pkg_noref :: Package2_2 where
  "example_pkg_noref =
     \<lparr>PackageName = ''img'', PackageExternalReferences =
        [\<lparr>Category = ''SECURITY'', Locator = ''cpe:2.3:a:img''\<rparr>]\<rparr>"

definition example_spdx :: Document2_2 where
  "example_spdx =
     \<lparr>CreationInfo = \<lparr>DocumentName = ''img''\<rparr>,
      Packages = [''Package-1'' \<mapsto> example_pkg_musl, ''Package-2'' \<mapsto> example_pkg_img]\<rparr>"

definition example_spdx_two :: Document2_2 where
  "example_spdx_two =
     \<lparr>CreationInfo = \<lparr>DocumentName = ''img''\<rparr>,
      Packages = [''Package-1'' \<mapsto> example_pkg_old, ''Package-2'' \<mapsto> example_pkg_img]\<rparr>"

definition example_spdx_late :: Document2_2 where
  "example_spdx_late =
     \<lparr>CreationInfo = \<lparr>DocumentName = ''img''\<rparr>,
      Packages = [''Package-1'' \<mapsto> example_pkg_noref, ''Package-2'' \<mapsto> example_pkg_img]\<rparr>"

definition example_spdx_nomatch :: Document2_2 where
  "example_spdx_nomatch =
     \<lparr>CreationInfo = \<lparr>DocumentName = ''img''\<rparr>,
      Packages = [''Package-1'' \<mapsto> example_pkg_musl]\<rparr>"

definition example_spdx_noref :: Document2_2 where
  "example_spdx_noref =
     \<lparr>CreationInfo = \<lparr>DocumentName = ''img''\<rparr>,
      Packages = [''Package-1'' \<mapsto> example_pkg_noref]\<rparr>"

text \<open>Two runs of the loop: one visits the keys in ascending order, the other in descending
  order.\<close>

definition example_range :: "(ElementID \<rightharpoonup> Package2_2) \<Rightarrow> ElementID list" where
  "example_range m = filter (\<lambda>k. m k \<noteq> None) [''Package-1'', ''Package-2'']"

definition example_range_reversed :: "(ElementID \<rightharpoonup> Package2_2) \<Rightarrow> ElementID list" where
  "example_range_reversed m = filter (\<lambda>k. m k \<noteq> None) [''Package-2'', ''Package-1'']"

definition example_DetectFormat :: "bytes \<Rightarrow> error + Format" where
  "example_DetectFormat b =
     (case b of
        [] \<Rightarrow> Inl (Errorf ''EOF'')
      | x # _ \<Rightarrow>
          if x = 1 then Inr FormatCycloneDXJSON
          else if x = 2 then Inr FormatSPDXJSON
          else if x = 3 then Inr (FormatOther ''spdx-tv'')
          else Inl (Errorf ''unable to determine SBOM format''))"

definition example_Decode :: "bytes \<Rightarrow> Format \<Rightarrow> error + SBOM" where
  "example_Decode b f =
     (if length b < 2 then Inl (Errorf ''unexpected end of JSON input'')
      else Inr \<lparr>CycloneDX = example_cdx, SPDX = example_spdx\<rparr>)"

definition example_desc :: Descriptor where
  "example_desc =
     \<lparr>MediaType = ''application/vnd.oci.image.manifest.v1+json'', Size = 123,
      Digest = \<lparr>Algorithm = ''sha256'', Hex = example_hex\<rparr>\<rparr>"

definition example_ext :: extern where
  "example_ext =
     \<lparr>purl_FromString = example_FromString,
      name_NewDigest = example_NewDigest,
      sbom_DetectFormat = example_DetectFormat,
      sbom_Decode = example_Decode,
      remote_Head = (\<lambda>repo. if RepositoryStr repo = ''org/img'' then Inr example_desc
                             else Inl (Errorf ''MANIFEST_UNKNOWN'')),
      append_validate = (\<lambda>l. None),
      image_Digest = (\<lambda>img. Inr \<lparr>Algorithm = ''sha256'', Hex = example_hex_tag\<rparr>),
      remote_Write = (\<lambda>tag img. None),
      range_Packages = example_range\<rparr>"

definition example_ext_reversed :: extern where
  "example_ext_reversed = example_ext\<lparr>range_Packages := example_range_reversed\<rparr>"

definition example_ext_bad_purl :: extern where
  "example_ext_bad_purl =
     example_ext\<lparr>purl_FromString := \<lambda>s. Inl (Errorf ''purl is missing type or name'')\<rparr>"

definition example_ext_no_head :: extern where
  "example_ext_no_head = example_ext\<lparr>remote_Head := \<lambda>repo. Inl (Errorf ''MANIFEST_UNKNOWN'')\<rparr>"

definition example_ext_no_append :: extern where
  "example_ext_no_append =
     example_ext\<lparr>append_validate := \<lambda>l. Some (Errorf ''unable to add a nil layer to the image'')\<rparr>"

definition example_ext_no_digest :: extern where
  "example_ext_no_digest =
     example_ext\<lparr>image_Digest := \<lambda>img. Inl (Errorf ''json: unsupported value'')\<rparr>"

definition example_referrer :: referrer where
  "example_referrer =
     \<lparr>annotations = [''org.opencontainers.artifact.description'' \<mapsto> ''CycloneDX JSON SBOM''],
      mediaType = ''application/vnd.cyclonedx+json'', bytes = [1, 0],
      targetRepo = example_target, targetDesc = example_desc\<rparr>"

definition example_image :: "bytes \<Rightarrow> string \<Rightarrow> string \<Rightarrow> Image" where
  "example_image b mt d =
     \<lparr>manifest_mediaType = ''application/vnd.oci.image.manifest.v1+json'',
      config_mediaType = mt,
      layers = [\<lparr>layer_content = b, layer_mediaType = ''application/vnd.oci.image.layer.v1.tar''\<rparr>],
      manifest_annotations = [''org.opencontainers.artifact.description'' \<mapsto> d],
      subject = Some example_desc\<rparr>"

section \<open>The loops of repoFromSpdx\<close>

lemma refs_loop_None:
  "(refs_loop ext refs = None) = (\<forall>x\<in>set refs. Category x \<noteq> ''PACKAGE-MANAGER'')"
  by (induction refs) auto

lemma refs_loop_first:
  "\<forall>x\<in>set pre. Category x \<noteq> ''PACKAGE-MANAGER'' \<Longrightarrow> Category ref = ''PACKAGE-MANAGER'' \<Longrightarrow>
   refs_loop ext (pre @ ref # post) = Some (repoFromPurl ext (Locator ref))"
  by (induction pre) auto

lemma pkgs_loop_skip:
  "\<forall>p\<in>set pre. PackageName p = d \<longrightarrow> (\<forall>x\<in>set (PackageExternalReferences p). Category x \<noteq> ''PACKAGE-MANAGER'') \<Longrightarrow>
   pkgs_loop ext d (pre @ rest) = pkgs_loop ext d rest"
proof (induction pre)
  case Nil
  show ?case by simp
next
  case (Cons p pre)
  have rest: "pkgs_loop ext d (pre @ rest) = pkgs_loop ext d rest"
    using Cons by simp
  show ?case
  proof (cases "PackageName p = d")
    case True
    with Cons.prems have "refs_loop ext (PackageExternalReferences p) = None"
      by (simp add: refs_loop_None)
    with True rest show ?thesis by simp
  next
    case False
    with rest show ?thesis by simp
  qed
qed

lemma pkgs_loop_None:
  "\<forall>p\<in>set pkgs. PackageName p = d \<longrightarrow> (\<forall>x\<in>set (PackageExternalReferences p). Category x \<noteq> ''PACKAGE-MANAGER'') \<Longrightarrow>
   pkgs_loop ext d pkgs = None"
  using pkgs_loop_skip [of pkgs d ext "[]"] by simp

lemma pkgs_loop_hit:
  assumes "\<forall>p\<in>set pre. PackageName p = d \<longrightarrow> (\<forall>x\<in>set (PackageExternalReferences p). Category x \<noteq> ''PACKAGE-MANAGER'')"
    and "PackageName pkg = d"
    and "PackageExternalReferences pkg = rpre @ ref # rpost"
    and "\<forall>x\<in>set rpre. Category x \<noteq> ''PACKAGE-MANAGER''"
    and "Category ref = ''PACKAGE-MANAGER''"
  shows "pkgs_loop ext d (pre @ pkg # post) = Some (repoFromPurl ext (Locator ref))"
proof -
  have "pkgs_loop ext d (pre @ pkg # post) = pkgs_loop ext d (pkg # post)"
    using assms(1) by (rule pkgs_loop_skip)
  moreover have "refs_loop ext (PackageExternalReferences pkg) = Some (repoFromPurl ext (Locator ref))"
    using assms(3-5) by (simp add: refs_loop_first)
  ultimately show ?thesis using assms(2) by simp
qed

lemma filter_single_split:
  "filter P xs = [x] \<Longrightarrow> \<exists>pre post. xs = pre @ x # post \<and> (\<forall>y\<in>set pre. \<not> P y) \<and> P x \<and> (\<forall>y\<in>set post. \<not> P y)"
  by (metis filter_eq_ConsD filter_empty_conv)

lemma range_values_append:
  "range_values m (ks @ ks') = range_values m ks @ range_values m ks'"
  by (induction ks) (auto split: option.splits)

lemma range_values_key:
  "p \<in> set (range_values m ks) \<Longrightarrow> \<exists>k\<in>set ks. m k = Some p"
  by (induction ks) (auto split: option.splits)

lemma range_values_ran:
  "p \<in> set (range_values m ks) \<Longrightarrow> p \<in> ran m"
  using range_values_key [of p m ks] by (auto simp: ran_def)

text \<open>The run decides: the first package visited that bears the document's name and has a
  \<open>PACKAGE-MANAGER\<close> reference is resolved, through its first such reference.\<close>

lemma repoFromSpdx_visit:
  assumes "range_Packages ext (Packages doc) = kpre @ k # kpost"
    and "\<forall>k'\<in>set kpre. \<forall>p. Packages doc k' = Some p \<longrightarrow>
           PackageName p = DocumentName (CreationInfo doc) \<longrightarrow>
           (\<forall>x\<in>set (PackageExternalReferences p). Category x \<noteq> ''PACKAGE-MANAGER'')"
    and "Packages doc k = Some pkg"
    and "PackageName pkg = DocumentName (CreationInfo doc)"
    and "PackageExternalReferences pkg = rpre @ ref # rpost"
    and "\<forall>x\<in>set rpre. Category x \<noteq> ''PACKAGE-MANAGER''"
    and "Category ref = ''PACKAGE-MANAGER''"
  shows "repoFromSpdx ext doc = repoFromPurl ext (Locator ref)"
proof -
  have pre: "\<forall>p\<in>set (range_values (Packages doc) kpre).
      PackageName p = DocumentName (CreationInfo doc) \<longrightarrow>
      (\<forall>x\<in>set (PackageExternalReferences p). Category x \<noteq> ''PACKAGE-MANAGER'')"
    using assms(2) range_values_key [of _ "Packages doc" kpre] by blast
  have "range_values (Packages doc) (range_Packages ext (Packages doc)) =
      range_values (Packages doc) kpre @ pkg # range_values (Packages doc) kpost"
    using assms(1,3) by (simp add: range_values_append)
  moreover have "pkgs_loop ext (DocumentName (CreationInfo doc))
      (range_values (Packages doc) kpre @ pkg # range_values (Packages doc) kpost) =
      Some (repoFromPurl ext (Locator ref))"
    using pre assms(4-7) by (rule pkgs_loop_hit)
  ultimately show ?thesis by (simp add: repoFromSpdx_def)
qed

section \<open>The stages of the pipeline\<close>

lemma referrer_Image_Inr:
  assumes "referrer_Image ext r = Inr img"
  shows "img = \<lparr>manifest_mediaType = MediaType (targetDesc r),
                config_mediaType = mediaType r,
                layers = [static_NewLayer (bytes r) OCIUncompressedLayer],
                manifest_annotations = annotations r,
                subject = Some (targetDesc r)\<rparr>"
  using assms
  by (auto simp: referrer_Image_def mutate_Append_def mutate_MediaType_def
      mutate_ConfigMediaType_def mutate_Annotations_def mutate_Subject_def empty_Image_def
      split: option.splits)

lemma referrer_Image_cases:
  "referrer_Image ext r =
     (case append_validate ext (static_NewLayer (bytes r) OCIUncompressedLayer) of
        Some err \<Rightarrow> Inl err
      | None \<Rightarrow>
          Inr \<lparr>manifest_mediaType = MediaType (targetDesc r),
               config_mediaType = mediaType r,
               layers = [static_NewLayer (bytes r) OCIUncompressedLayer],
               manifest_annotations = annotations r,
               subject = Some (targetDesc r)\<rparr>)"
  by (simp add: referrer_Image_def mutate_Append_def mutate_MediaType_def
      mutate_ConfigMediaType_def mutate_Annotations_def mutate_Subject_def empty_Image_def
      split: option.splits)

lemma referrerFromSBOM_Inr:
  assumes "referrerFromSBOM ext r = Inr ref"
  shows "\<exists>b format decoded.
           io_ReadAll r = Inr b \<and> sbom_DetectFormat ext b = Inr format \<and>
           sbom_Decode ext b format = Inr decoded \<and>
           (format = FormatCycloneDXJSON \<and>
              repoFromPurl ext (BOMRef (Component (Metadata (CycloneDX decoded)))) =
                Inr (targetRepo ref) \<and>
              annotations ref = [annotationKeyDescription \<mapsto> ''CycloneDX JSON SBOM''] \<and>
              mediaType ref = mediaKeyCycloneDX
            \<or> format = FormatSPDXJSON \<and>
              repoFromSpdx ext (SPDX decoded) = Inr (targetRepo ref) \<and>
              annotations ref = [annotationKeyDescription \<mapsto> ''SPDX JSON SBOM''] \<and>
              mediaType ref = mediaKeySPDX) \<and>
           remote_Head ext (targetRepo ref) = Inr (targetDesc ref) \<and>
           bytes ref = b"
  using assms unfolding referrerFromSBOM_def
  by (auto split: sum.splits Format.splits)

lemma putReferrer_writes:
  assumes "(tag, img) \<in> set (snd (putReferrer ext r))"
  shows "\<exists>ref. referrerFromSBOM ext r = Inr ref \<and> referrer_Image ext ref = Inr img \<and>
           referrer_Tag ext ref img = Inr tag \<and>
           putReferrer ext r = (remote_Write ext tag img, [(tag, img)])"
  using assms unfolding putReferrer_def
  by (auto split: sum.splits option.splits)

section \<open>Evaluation of the examples\<close>

lemma example_ext_sel:
  "purl_FromString example_ext = example_FromString"
  "name_NewDigest example_ext = example_NewDigest"
  "sbom_DetectFormat example_ext = example_DetectFormat"
  "sbom_Decode example_ext = example_Decode"
  "append_validate example_ext = (\<lambda>l. None)"
  "image_Digest example_ext = (\<lambda>img. Inr \<lparr>Algorithm = ''sha256'', Hex = example_hex_tag\<rparr>)"
  "remote_Write example_ext = (\<lambda>tag img. None)"
  by (simp_all add: example_ext_def)

lemma example_repoFromPurl:
  "repoFromPurl example_ext example_purl =
     Inr example_target"
  "repoFromPurl example_ext example_purl_old =
     Inr example_target_old"
  "repoFromPurl example_ext example_purl_bare = Inl (Errorf ''repository_url not found'')"
  by (simp_all add: repoFromPurl_def map_index_def example_ext_sel example_FromString_def
      example_NewDigest_def)

lemma example_range_ext:
  "range_Packages example_ext = example_range"
  "range_Packages example_ext_reversed = example_range_reversed"
  "repoFromPurl example_ext_reversed s = repoFromPurl example_ext s"
  by (simp_all add: example_ext_def example_ext_reversed_def repoFromPurl_def Let_def
      split: sum.splits)

lemma example_range_visits:
  "range_visits [''Package-1'' \<mapsto> p, ''Package-2'' \<mapsto> q]
     (example_range [''Package-1'' \<mapsto> p, ''Package-2'' \<mapsto> q])"
  "range_visits [''Package-1'' \<mapsto> p, ''Package-2'' \<mapsto> q]
     (example_range_reversed [''Package-1'' \<mapsto> p, ''Package-2'' \<mapsto> q])"
  "range_visits [''Package-1'' \<mapsto> p] (example_range [''Package-1'' \<mapsto> p])"
  by (auto simp: range_visits_def example_range_def example_range_reversed_def)

lemma example_range_values:
  "range_values [''Package-1'' \<mapsto> p, ''Package-2'' \<mapsto> q]
     (example_range [''Package-1'' \<mapsto> p, ''Package-2'' \<mapsto> q]) = [p, q]"
  "range_values [''Package-1'' \<mapsto> p, ''Package-2'' \<mapsto> q]
     (example_range_reversed [''Package-1'' \<mapsto> p, ''Package-2'' \<mapsto> q]) = [q, p]"
  "range_values [''Package-1'' \<mapsto> p] (example_range [''Package-1'' \<mapsto> p]) = [p]"
  by (simp_all add: example_range_def example_range_reversed_def)

lemma example_repoFromSpdx:
  "repoFromSpdx example_ext example_spdx = Inr example_target"
  "repoFromSpdx example_ext example_spdx_two = Inr example_target_old"
  "repoFromSpdx example_ext_reversed example_spdx_two = Inr example_target"
  "repoFromSpdx example_ext example_spdx_late = Inr example_target"
  "repoFromSpdx example_ext_reversed example_spdx_late = Inr example_target"
  "repoFromSpdx example_ext example_spdx_nomatch = Inl (Errorf ''not found: repo uri'')"
  "repoFromSpdx example_ext example_spdx_noref = Inl (Errorf ''not found: repo uri'')"
  by (simp_all add: repoFromSpdx_def example_spdx_def example_spdx_two_def example_spdx_late_def
      example_spdx_nomatch_def example_spdx_noref_def example_range_ext example_range_values
      example_pkg_musl_def example_pkg_img_def example_pkg_old_def example_pkg_noref_def
      example_repoFromPurl)

lemma example_Head:
  "remote_Head example_ext example_target =
     Inr example_desc"
  by (simp add: example_ext_def)

lemma example_referrerFromSBOM:
  "referrerFromSBOM example_ext (Inr [1, 0]) =
     Inr \<lparr>annotations = [''org.opencontainers.artifact.description'' \<mapsto> ''CycloneDX JSON SBOM''],
          mediaType = ''application/vnd.cyclonedx+json'', bytes = [1, 0],
          targetRepo = example_target,
          targetDesc = example_desc\<rparr>"
  "referrerFromSBOM example_ext (Inr [2, 0]) =
     Inr \<lparr>annotations = [''org.opencontainers.artifact.description'' \<mapsto> ''SPDX JSON SBOM''],
          mediaType = ''application/spdx+json'', bytes = [2, 0],
          targetRepo = example_target,
          targetDesc = example_desc\<rparr>"
  "referrerFromSBOM example_ext (Inr [3, 0]) = Inl (Errorf ''unsupported format: spdx-tv'')"
  "referrerFromSBOM example_ext (Inr [1]) = Inl (Errorf ''unexpected end of JSON input'')"
  "referrerFromSBOM example_ext (Inr []) = Inl (Errorf ''EOF'')"
  "referrerFromSBOM example_ext (Inl (Errorf ''unexpected EOF'')) = Inl (Errorf ''unexpected EOF'')"
  by (simp_all add: referrerFromSBOM_def io_ReadAll_def example_ext_sel example_DetectFormat_def
      example_Decode_def example_repoFromPurl example_repoFromSpdx example_Head
      annotationKeyDescription_def mediaKeyCycloneDX_def mediaKeySPDX_def
      example_cdx_def)

lemma example_referrer_Image:
  "referrer_Image example_ext
     \<lparr>annotations = [''org.opencontainers.artifact.description'' \<mapsto> d],
      mediaType = mt, bytes = b,
      targetRepo = example_target,
      targetDesc = example_desc\<rparr> = Inr (example_image b mt d)"
  by (simp add: referrer_Image_cases example_ext_sel example_image_def static_NewLayer_def
      OCIUncompressedLayer_def example_desc_def)

lemma example_referrerFromSBOM_cdx:
  "referrerFromSBOM example_ext (Inr [1, 0]) = Inr example_referrer"
  by (simp add: example_referrerFromSBOM example_referrer_def)

lemma example_referrer_Image_cdx:
  "referrer_Image example_ext example_referrer =
     Inr (example_image [1, 0] ''application/vnd.cyclonedx+json'' ''CycloneDX JSON SBOM'')"
  by (simp add: example_referrer_def example_referrer_Image)

lemma example_referrer_Tag:
  "referrer_Tag example_ext example_referrer img = Inr example_tag"
  by (simp add: referrer_Tag_def example_ext_sel Hash_String_def example_referrer_def example_NewDigest_def)

lemma example_putReferrer:
  "putReferrer example_ext (Inr [1, 0]) =
     (None, [(example_tag,
              example_image [1, 0] ''application/vnd.cyclonedx+json'' ''CycloneDX JSON SBOM'')])"
  by (simp add: putReferrer_def example_referrerFromSBOM_cdx example_referrer_Image_cdx
      example_referrer_Tag example_ext_sel)

lemma example_stages:
  "io_ReadAll (Inl (Errorf ''unexpected EOF'')) = Inl (Errorf ''unexpected EOF'')"
  "io_ReadAll (Inr b) = Inr b"
  "sbom_DetectFormat example_ext [] = Inl (Errorf ''EOF'')"
  "sbom_DetectFormat example_ext [1] = Inr FormatCycloneDXJSON"
  "sbom_DetectFormat example_ext [1, 0] = Inr FormatCycloneDXJSON"
  "sbom_DetectFormat example_ext [2, 0] = Inr FormatSPDXJSON"
  "sbom_DetectFormat example_ext [3, 0] = Inr (FormatOther ''spdx-tv'')"
  "sbom_Decode example_ext [1] f = Inl (Errorf ''unexpected end of JSON input'')"
  "sbom_Decode example_ext [x, 0] f = Inr \<lparr>CycloneDX = example_cdx, SPDX = example_spdx\<rparr>"
  by (simp_all add: io_ReadAll_def example_ext_sel example_DetectFormat_def example_Decode_def)

lemma example_bad_purl:
  "sbom_DetectFormat example_ext_bad_purl = sbom_DetectFormat example_ext"
  "sbom_Decode example_ext_bad_purl = sbom_Decode example_ext"
  "repoFromPurl example_ext_bad_purl (BOMRef (Component (Metadata example_cdx))) =
     Inl (Errorf ''purl is missing type or name'')"
  "repoFromSpdx example_ext_bad_purl example_spdx = Inl (Errorf ''purl is missing type or name'')"
  by (simp_all add: example_ext_bad_purl_def repoFromPurl_def repoFromSpdx_def example_spdx_def
      example_range_ext example_range_values example_pkg_musl_def example_pkg_img_def)

lemma example_no_head:
  "sbom_DetectFormat example_ext_no_head = sbom_DetectFormat example_ext"
  "sbom_Decode example_ext_no_head = sbom_Decode example_ext"
  "repoFromPurl example_ext_no_head (BOMRef (Component (Metadata example_cdx))) = Inr example_target"
  "repoFromSpdx example_ext_no_head example_spdx = Inr example_target"
  "remote_Head example_ext_no_head example_target = Inl (Errorf ''MANIFEST_UNKNOWN'')"
  by (simp_all add: example_ext_no_head_def repoFromPurl_def repoFromSpdx_def example_spdx_def
      example_range_ext example_range_values example_pkg_musl_def example_pkg_img_def
      example_cdx_def example_ext_sel example_FromString_def example_NewDigest_def map_index_def)

lemma example_no_append:
  "referrerFromSBOM example_ext_no_append (Inr [1, 0]) = Inr example_referrer"
  "referrer_Image example_ext_no_append example_referrer =
     Inl (Errorf ''unable to add a nil layer to the image'')"
  by (simp_all add: example_ext_no_append_def referrerFromSBOM_def io_ReadAll_def example_ext_sel
      example_DetectFormat_def example_Decode_def repoFromPurl_def example_cdx_def
      example_FromString_def example_NewDigest_def map_index_def example_ext_def
      example_referrer_def annotationKeyDescription_def mediaKeyCycloneDX_def
      referrer_Image_cases)

lemma example_no_digest:
  "referrerFromSBOM example_ext_no_digest (Inr [1, 0]) = Inr example_referrer"
  "referrer_Image example_ext_no_digest example_referrer =
     Inr (example_image [1, 0] ''application/vnd.cyclonedx+json'' ''CycloneDX JSON SBOM'')"
  "referrer_Tag example_ext_no_digest example_referrer img = Inl (Errorf ''json: unsupported value'')"
  by (simp_all add: example_ext_no_digest_def referrerFromSBOM_def io_ReadAll_def example_ext_sel
      example_DetectFormat_def example_Decode_def repoFromPurl_def example_cdx_def
      example_FromString_def example_NewDigest_def map_index_def example_ext_def
      example_referrer_def annotationKeyDescription_def mediaKeyCycloneDX_def
      referrer_Image_cases referrer_Tag_def example_image_def static_NewLayer_def
      OCIUncompressedLayer_def example_desc_def)

section \<open>The claims\<close>

subsection \<open>C1: the package-URL strategy\<close>

text \<open>
  Claim C1. When the package-URL string in the CycloneDX metadata component's bom-ref parses
  with the qualifier \<open>repository_url\<close> equal to a non-empty \<open>R\<close> and with version
  \<open>V\<close>, \<open>repoFromPurl\<close> returns what \<open>name.NewDigest\<close> makes of \<open>R@V\<close>; when
  the qualifier is absent or empty it fails with the error \<open>repository_url not found\<close>.
\<close>

theorem repoFromPurl_repository_url:
  assumes "purl_FromString ext (BOMRef (Component (Metadata cdx))) = Inr p"
  shows "(Qualifiers_Map p ''repository_url'' = Some R \<and> R \<noteq> [] \<and> Version p = V \<longrightarrow>
            repoFromPurl ext (BOMRef (Component (Metadata cdx))) = name_NewDigest ext (R @ ''@'' @ V)) \<and>
         (Qualifiers_Map p ''repository_url'' = None \<or> Qualifiers_Map p ''repository_url'' = Some [] \<longrightarrow>
            repoFromPurl ext (BOMRef (Component (Metadata cdx))) =
              Inl (Errorf ''repository_url not found''))"
  using assms by (auto simp: repoFromPurl_def map_index_def split: sum.splits)

text \<open>
  One bom-ref with the qualifier and one without it.
\<close>

theorem repoFromPurl_repository_url_witness:
  "repoFromPurl example_ext (BOMRef (Component (Metadata example_cdx))) = Inr example_target \<and>
   repoFromPurl example_ext
     (BOMRef (Component (Metadata \<lparr>Metadata = \<lparr>Component = \<lparr>BOMRef = example_purl_bare\<rparr>\<rparr>\<rparr>))) =
     Inl (Errorf ''repository_url not found'')"
proof -
  have p1: "purl_FromString example_ext (BOMRef (Component (Metadata example_cdx))) =
      Inr \<lparr>Version = example_digest, Qualifiers_Map = [''repository_url'' \<mapsto> ''reg.io/org/img'']\<rparr>"
    by (simp add: example_ext_sel example_cdx_def example_FromString_def)
  have p2: "purl_FromString example_ext
      (BOMRef (Component (Metadata \<lparr>Metadata = \<lparr>Component = \<lparr>BOMRef = example_purl_bare\<rparr>\<rparr>\<rparr>))) =
      Inr \<lparr>Version = example_digest, Qualifiers_Map = Map.empty\<rparr>"
    by (simp add: example_ext_sel example_FromString_def)
  show ?thesis
    using repoFromPurl_repository_url [OF p1, of "''reg.io/org/img''" "example_digest"]
      repoFromPurl_repository_url [OF p2, of "[]" "[]"]
    by (simp add: example_ext_sel example_NewDigest_def)
qed

subsection \<open>C2: the SPDX strategy\<close>

text \<open>
  As stated, the claim speaks of any package that bears the document's name and has exactly
  one \<open>PACKAGE-MANAGER\<close> reference. In \<open>example_spdx_two\<close> both packages are such
  packages, with locators that resolve to different repositories. Whichever of the two the
  loop visits first is resolved, so the claim fails for the other: for the second package
  in the run that visits the keys in ascending order, for the first in the run that visits
  them in descending order.
\<close>

theorem repoFromSpdx_root_package_counterexample:
  "Packages example_spdx_two ''Package-1'' = Some example_pkg_old \<and>
   Packages example_spdx_two ''Package-2'' = Some example_pkg_img \<and>
   PackageName example_pkg_old = DocumentName (CreationInfo example_spdx_two) \<and>
   PackageName example_pkg_img = DocumentName (CreationInfo example_spdx_two) \<and>
   map Locator (filter (\<lambda>x. Category x = ''PACKAGE-MANAGER'')
       (PackageExternalReferences example_pkg_old)) = [example_purl_old] \<and>
   map Locator (filter (\<lambda>x. Category x = ''PACKAGE-MANAGER'')
       (PackageExternalReferences example_pkg_img)) = [example_purl] \<and>
   range_visits (Packages example_spdx_two)
     (range_Packages example_ext (Packages example_spdx_two)) \<and>
   range_visits (Packages example_spdx_two)
     (range_Packages example_ext_reversed (Packages example_spdx_two)) \<and>
   repoFromSpdx example_ext example_spdx_two \<noteq> repoFromPurl example_ext example_purl \<and>
   repoFromSpdx example_ext_reversed example_spdx_two \<noteq>
     repoFromPurl example_ext_reversed example_purl_old"
  by (simp add: example_repoFromSpdx example_repoFromPurl example_range_ext)
    (simp add: example_spdx_two_def example_pkg_old_def example_pkg_img_def example_range_visits)

text \<open>
  Claim C2, amended. When a package bears the document's name and has exactly one
  \<open>PACKAGE-MANAGER\<close> reference, with locator \<open>L\<close>, and no other package of the document
  bears the document's name and has a \<open>PACKAGE-MANAGER\<close> reference, then in every run
  (whatever the order in which the loop visits the map) \<open>repoFromSpdx\<close> returns exactly
  \<open>repoFromPurl L\<close>. When no package bears the document's name, it fails with the error
  \<open>not found: repo uri\<close>.
\<close>

theorem repoFromSpdx_root_package:
  "(range_visits (Packages doc) (range_Packages ext (Packages doc)) \<and>
    Packages doc k = Some pkg \<and>
    PackageName pkg = DocumentName (CreationInfo doc) \<and>
    filter (\<lambda>x. Category x = ''PACKAGE-MANAGER'') (PackageExternalReferences pkg) = [ref] \<and>
    Locator ref = L \<and>
    (\<forall>k' p. k' \<noteq> k \<and> Packages doc k' = Some p \<and>
        PackageName p = DocumentName (CreationInfo doc) \<longrightarrow>
        (\<forall>x\<in>set (PackageExternalReferences p). Category x \<noteq> ''PACKAGE-MANAGER'')) \<longrightarrow>
    repoFromSpdx ext doc = repoFromPurl ext L) \<and>
   ((\<forall>p\<in>ran (Packages doc). PackageName p \<noteq> DocumentName (CreationInfo doc)) \<longrightarrow>
    repoFromSpdx ext doc = Inl (Errorf ''not found: repo uri''))"
proof (intro conjI impI)
  assume a: "range_visits (Packages doc) (range_Packages ext (Packages doc)) \<and>
    Packages doc k = Some pkg \<and>
    PackageName pkg = DocumentName (CreationInfo doc) \<and>
    filter (\<lambda>x. Category x = ''PACKAGE-MANAGER'') (PackageExternalReferences pkg) = [ref] \<and>
    Locator ref = L \<and>
    (\<forall>k' p. k' \<noteq> k \<and> Packages doc k' = Some p \<and>
        PackageName p = DocumentName (CreationInfo doc) \<longrightarrow>
        (\<forall>x\<in>set (PackageExternalReferences p). Category x \<noteq> ''PACKAGE-MANAGER''))"
  then have "k \<in> set (range_Packages ext (Packages doc))"
    by (auto simp: range_visits_def)
  then obtain kpre kpost where ks: "range_Packages ext (Packages doc) = kpre @ k # kpost"
      and first: "k \<notin> set kpre"
    by (auto dest: split_list_first)
  from a obtain rpre rpost where refs: "PackageExternalReferences pkg = rpre @ ref # rpost"
      and rpre: "\<forall>x\<in>set rpre. Category x \<noteq> ''PACKAGE-MANAGER''"
      and cat: "Category ref = ''PACKAGE-MANAGER''"
    using filter_single_split [of "\<lambda>x. Category x = ''PACKAGE-MANAGER''"
        "PackageExternalReferences pkg" ref]
    by auto
  have pre: "\<forall>k'\<in>set kpre. \<forall>p. Packages doc k' = Some p \<longrightarrow>
      PackageName p = DocumentName (CreationInfo doc) \<longrightarrow>
      (\<forall>x\<in>set (PackageExternalReferences p). Category x \<noteq> ''PACKAGE-MANAGER'')"
    using a first by metis
  have "repoFromSpdx ext doc = repoFromPurl ext (Locator ref)"
    using ks pre _ _ refs rpre cat by (rule repoFromSpdx_visit) (use a in auto)
  with a show "repoFromSpdx ext doc = repoFromPurl ext L" by simp
next
  assume "\<forall>p\<in>ran (Packages doc). PackageName p \<noteq> DocumentName (CreationInfo doc)"
  then have "pkgs_loop ext (DocumentName (CreationInfo doc))
      (range_values (Packages doc) (range_Packages ext (Packages doc))) = None"
    by (intro pkgs_loop_None) (auto dest: range_values_ran)
  then show "repoFromSpdx ext doc = Inl (Errorf ''not found: repo uri'')"
    by (simp add: repoFromSpdx_def)
qed

text \<open>The document \<open>example_spdx\<close>, whose second package is the root, in both runs, and a
  document without a root package.\<close>

theorem repoFromSpdx_root_package_witness:
  "repoFromSpdx example_ext example_spdx = repoFromPurl example_ext example_purl \<and>
   repoFromSpdx example_ext_reversed example_spdx =
     repoFromPurl example_ext_reversed example_purl \<and>
   repoFromSpdx example_ext example_spdx_nomatch = Inl (Errorf ''not found: repo uri'')"
proof -
  have other: "\<forall>k' p. k' \<noteq> ''Package-2'' \<and> Packages example_spdx k' = Some p \<and>
        PackageName p = DocumentName (CreationInfo example_spdx) \<longrightarrow>
        (\<forall>x\<in>set (PackageExternalReferences p). Category x \<noteq> ''PACKAGE-MANAGER'')"
    by (auto simp: example_spdx_def example_pkg_musl_def split: if_splits)
  have root: "Packages example_spdx ''Package-2'' = Some example_pkg_img \<and>
      PackageName example_pkg_img = DocumentName (CreationInfo example_spdx) \<and>
      filter (\<lambda>x. Category x = ''PACKAGE-MANAGER'') (PackageExternalReferences example_pkg_img) =
        [\<lparr>Category = ''PACKAGE-MANAGER'', Locator = example_purl\<rparr>]"
    by (simp add: example_spdx_def example_pkg_img_def)
  have v1: "range_visits (Packages example_spdx) (range_Packages example_ext (Packages example_spdx))"
    by (simp add: example_spdx_def example_range_ext example_range_visits)
  have v2: "range_visits (Packages example_spdx)
      (range_Packages example_ext_reversed (Packages example_spdx))"
    by (simp add: example_spdx_def example_range_ext example_range_visits)
  have none: "\<forall>p\<in>ran (Packages example_spdx_nomatch).
      PackageName p \<noteq> DocumentName (CreationInfo example_spdx_nomatch)"
    by (auto simp: example_spdx_nomatch_def example_pkg_musl_def ran_def split: if_splits)
  have w1: "repoFromSpdx example_ext example_spdx = repoFromPurl example_ext example_purl"
    using repoFromSpdx_root_package [where ext = example_ext and doc = example_spdx
        and k = "''Package-2''" and pkg = example_pkg_img and L = example_purl
        and ref = "\<lparr>Category = ''PACKAGE-MANAGER'', Locator = example_purl\<rparr>"]
      v1 root other
    by simp
  have w2: "repoFromSpdx example_ext_reversed example_spdx =
      repoFromPurl example_ext_reversed example_purl"
    using repoFromSpdx_root_package [where ext = example_ext_reversed and doc = example_spdx
        and k = "''Package-2''" and pkg = example_pkg_img and L = example_purl
        and ref = "\<lparr>Category = ''PACKAGE-MANAGER'', Locator = example_purl\<rparr>"]
      v2 root other
    by simp
  have w3: "repoFromSpdx example_ext example_spdx_nomatch = Inl (Errorf ''not found: repo uri'')"
    using repoFromSpdx_root_package [where ext = example_ext and doc = example_spdx_nomatch] none
    by simp
  from w1 w2 w3 show ?thesis by (intro conjI)
qed

subsection \<open>C3: the shape of the manifest\<close>



subsection \<open>C4: the layer holds the input bytes\<close>

text \<open>
  Claim C4. When the reader yields the bytes \<open>b\<close>, the referrer holds \<open>b\<close>, the image
  built from it has the single layer content \<open>b\<close>, and so has every image that
  \<open>putReferrer\<close> pushes.
\<close>

theorem sbom_bytes_roundtrip:
  assumes "io_ReadAll r = Inr b"
  shows "(referrerFromSBOM ext r = Inr ref \<and> referrer_Image ext ref = Inr img \<longrightarrow>
            bytes ref = b \<and> map layer_content (layers img) = [b]) \<and>
         (\<forall>(tag, pushed)\<in>set (snd (putReferrer ext r)). map layer_content (layers pushed) = [b])"
proof -
  have one: "bytes ref = b \<and> map layer_content (layers img) = [b]"
    if "referrerFromSBOM ext r = Inr ref" and "referrer_Image ext ref = Inr img" for ref img
  proof -
    from referrerFromSBOM_Inr [OF that(1)] assms have "bytes ref = b" by auto
    with referrer_Image_Inr [OF that(2)] show ?thesis
      by (simp add: static_NewLayer_def)
  qed
  have "map layer_content (layers pushed) = [b]"
    if "(tag, pushed) \<in> set (snd (putReferrer ext r))" for tag pushed
    using putReferrer_writes [OF that] one by blast
  with one show ?thesis by blast
qed

text \<open>
  The CycloneDX input \<open>[1, 0]\<close>.
\<close>

theorem sbom_bytes_roundtrip_witness:
  "bytes example_referrer = [1, 0] \<and>
   map layer_content
     (layers (example_image [1, 0] ''application/vnd.cyclonedx+json'' ''CycloneDX JSON SBOM'')) =
     [[1, 0]] \<and>
   map (\<lambda>(tag, pushed). map layer_content (layers pushed))
     (snd (putReferrer example_ext (Inr [1, 0]))) = [[[1, 0]]]"
proof -
  have h: "io_ReadAll (Inr [1, 0]) = Inr [1, 0]"
    by (simp add: io_ReadAll_def)
  show ?thesis
    using sbom_bytes_roundtrip [OF h, of example_ext example_referrer
        "example_image [1, 0] ''application/vnd.cyclonedx+json'' ''CycloneDX JSON SBOM''"]
    by (simp add: example_referrerFromSBOM_cdx example_referrer_Image_cdx example_putReferrer)
qed

subsection \<open>C5: the tag\<close>

text \<open>
  Claim C5. \<open>referrer.Tag\<close> returns what \<open>name.NewDigest\<close> makes of the string
  \<open>registry/repository@digest\<close>, where registry and repository are those of the target
  and the digest is the one of the image passed in; a failing digest is returned as the
  error. Every tag that \<open>putReferrer\<close> pushes is composed in this way from the resolved
  target and the digest of the very image pushed with it.
\<close>

theorem referrer_Tag_composition:
  "(image_Digest ext img = Inr digest \<longrightarrow>
      referrer_Tag ext r img =
        name_NewDigest ext
          (RegistryStr (targetRepo r) @ ''/'' @ RepositoryStr (targetRepo r) @ ''@'' @
           Algorithm digest @ '':'' @ Hex digest)) \<and>
   (image_Digest ext img = Inl err \<longrightarrow> referrer_Tag ext r img = Inl err) \<and>
   (\<forall>(tag, pushed)\<in>set (snd (putReferrer ext rd)).
      \<exists>ref d. referrerFromSBOM ext rd = Inr ref \<and> image_Digest ext pushed = Inr d \<and>
        name_NewDigest ext
          (RegistryStr (targetRepo ref) @ ''/'' @ RepositoryStr (targetRepo ref) @ ''@'' @
           Algorithm d @ '':'' @ Hex d) = Inr tag)"
proof -
  have a: "referrer_Tag ext r img =
        name_NewDigest ext
          (RegistryStr (targetRepo r) @ ''/'' @ RepositoryStr (targetRepo r) @ ''@'' @
           Algorithm digest @ '':'' @ Hex digest)"
    if "image_Digest ext img = Inr digest" for r img digest
    using that by (simp add: referrer_Tag_def Hash_String_def split: sum.splits)
  have b: "referrer_Tag ext r img = Inl err" if "image_Digest ext img = Inl err"
    using that by (simp add: referrer_Tag_def)
  have c: "\<exists>ref d. referrerFromSBOM ext rd = Inr ref \<and> image_Digest ext pushed = Inr d \<and>
        name_NewDigest ext
          (RegistryStr (targetRepo ref) @ ''/'' @ RepositoryStr (targetRepo ref) @ ''@'' @
           Algorithm d @ '':'' @ Hex d) = Inr tag"
    if "(tag, pushed) \<in> set (snd (putReferrer ext rd))" for tag pushed
  proof -
    from putReferrer_writes [OF that] obtain ref where
      ref: "referrerFromSBOM ext rd = Inr ref" and tag: "referrer_Tag ext ref pushed = Inr tag"
      by blast
    from tag obtain d where d: "image_Digest ext pushed = Inr d"
      by (auto simp: referrer_Tag_def split: sum.splits)
    from a [OF d, of ref] tag ref d show ?thesis by auto
  qed
  from a b c show ?thesis by blast
qed

text \<open>
  The example referrer, with a digest that succeeds and with one that fails.
\<close>

theorem referrer_Tag_composition_witness:
  "referrer_Tag example_ext example_referrer
     (example_image [1, 0] ''application/vnd.cyclonedx+json'' ''CycloneDX JSON SBOM'') =
     name_NewDigest example_ext example_reference_tag \<and>
   referrer_Tag example_ext_no_digest example_referrer
     (example_image [1, 0] ''application/vnd.cyclonedx+json'' ''CycloneDX JSON SBOM'') =
     Inl (Errorf ''json: unsupported value'') \<and>
   (\<exists>ref d. referrerFromSBOM example_ext (Inr [1, 0]) = Inr ref \<and>
      image_Digest example_ext
        (example_image [1, 0] ''application/vnd.cyclonedx+json'' ''CycloneDX JSON SBOM'') = Inr d \<and>
      name_NewDigest example_ext
        (RegistryStr (targetRepo ref) @ ''/'' @ RepositoryStr (targetRepo ref) @ ''@'' @
         Algorithm d @ '':'' @ Hex d) = Inr example_tag)"
proof -
  have d1: "image_Digest example_ext
      (example_image [1, 0] ''application/vnd.cyclonedx+json'' ''CycloneDX JSON SBOM'') =
      Inr \<lparr>Algorithm = ''sha256'', Hex = example_hex_tag\<rparr>"
    by (simp add: example_ext_sel)
  have d2: "image_Digest example_ext_no_digest
      (example_image [1, 0] ''application/vnd.cyclonedx+json'' ''CycloneDX JSON SBOM'') =
      Inl (Errorf ''json: unsupported value'')"
    by (simp add: example_ext_no_digest_def)
  have w1: "referrer_Tag example_ext example_referrer
     (example_image [1, 0] ''application/vnd.cyclonedx+json'' ''CycloneDX JSON SBOM'') =
     name_NewDigest example_ext example_reference_tag"
    using referrer_Tag_composition [where ext = example_ext and r = example_referrer
        and img = "example_image [1, 0] ''application/vnd.cyclonedx+json'' ''CycloneDX JSON SBOM''"
        and digest = "\<lparr>Algorithm = ''sha256'', Hex = example_hex_tag\<rparr>"] d1
    by (simp add: example_referrer_def)
  have w2: "referrer_Tag example_ext_no_digest example_referrer
     (example_image [1, 0] ''application/vnd.cyclonedx+json'' ''CycloneDX JSON SBOM'') =
     Inl (Errorf ''json: unsupported value'')"
    using referrer_Tag_composition [where ext = example_ext_no_digest and r = example_referrer
        and img = "example_image [1, 0] ''application/vnd.cyclonedx+json'' ''CycloneDX JSON SBOM''"
        and err = "Errorf ''json: unsupported value''"] d2
    by simp
  have w3: "\<exists>ref d. referrerFromSBOM example_ext (Inr [1, 0]) = Inr ref \<and>
      image_Digest example_ext
        (example_image [1, 0] ''application/vnd.cyclonedx+json'' ''CycloneDX JSON SBOM'') = Inr d \<and>
      name_NewDigest example_ext
        (RegistryStr (targetRepo ref) @ ''/'' @ RepositoryStr (targetRepo ref) @ ''@'' @
         Algorithm d @ '':'' @ Hex d) = Inr example_tag"
    using referrer_Tag_composition [where ext = example_ext and rd = "Inr [1, 0]"]
    by (simp add: example_putReferrer)
  from w1 w2 w3 show ?thesis by (intro conjI)
qed

subsection \<open>C6: the first match\<close>

text \<open>
  As stated, the claim lets the first package of the document that bears the document's name
  decide, and ignores every later one. Two things stand against it. The packages are the
  values of a map, and the loop visits them in an order of the run's: the same document
  \<open>example_spdx_two\<close> resolves to one repository in the run that visits the keys in
  ascending order and to another in the run that visits them in descending order. And a
  package that bears the name but has no \<open>PACKAGE-MANAGER\<close> reference does not decide: in
  \<open>example_spdx_late\<close> the loop visits such a package first, goes on, and resolves the one
  visited after it; without that later package the resolution fails.
\<close>

theorem repoFromSpdx_first_match_counterexample:
  "range_visits (Packages example_spdx_two)
     (range_Packages example_ext (Packages example_spdx_two)) \<and>
   range_visits (Packages example_spdx_two)
     (range_Packages example_ext_reversed (Packages example_spdx_two)) \<and>
   repoFromSpdx example_ext example_spdx_two = Inr example_target_old \<and>
   repoFromSpdx example_ext_reversed example_spdx_two = Inr example_target \<and>
   range_values (Packages example_spdx_late)
     (range_Packages example_ext (Packages example_spdx_late)) =
     [example_pkg_noref, example_pkg_img] \<and>
   PackageName example_pkg_noref = DocumentName (CreationInfo example_spdx_late) \<and>
   repoFromSpdx example_ext example_spdx_late = Inr example_target \<and>
   repoFromSpdx example_ext
     (example_spdx_late\<lparr>Packages := [''Package-1'' \<mapsto> example_pkg_noref]\<rparr>) =
     Inl (Errorf ''not found: repo uri'')"
  by (simp add: example_repoFromSpdx)
    (simp add: example_spdx_two_def example_spdx_late_def example_range_ext example_range_visits
      example_range_values repoFromSpdx_def example_pkg_noref_def)

text \<open>
  Claim C6, amended. When several packages bear the document's name or a package has several
  \<open>PACKAGE-MANAGER\<close> references, \<open>repoFromSpdx\<close> uses the first package, in the order in
  which the run's loop visits the map (an order the document does not fix), that bears the
  document's name and has a \<open>PACKAGE-MANAGER\<close> reference, and in it the first such
  reference in the order of the document: the result is \<open>repoFromPurl\<close> of its locator, and
  it is the same in a run that stops after that package, on a package cut after that
  reference. In every run the result is that of the first \<open>PACKAGE-MANAGER\<close> reference of
  some package that bears the document's name.
\<close>

theorem repoFromSpdx_first_match:
  "(range_Packages ext (Packages doc) = kpre @ k # kpost \<and>
    (\<forall>k'\<in>set kpre. \<forall>p. Packages doc k' = Some p \<longrightarrow>
        PackageName p = DocumentName (CreationInfo doc) \<longrightarrow>
        (\<forall>x\<in>set (PackageExternalReferences p). Category x \<noteq> ''PACKAGE-MANAGER'')) \<and>
    Packages doc k = Some pkg \<and>
    PackageName pkg = DocumentName (CreationInfo doc) \<and>
    PackageExternalReferences pkg = rpre @ ref # rpost \<and>
    (\<forall>x\<in>set rpre. Category x \<noteq> ''PACKAGE-MANAGER'') \<and>
    Category ref = ''PACKAGE-MANAGER'' \<longrightarrow>
    repoFromSpdx ext doc = repoFromPurl ext (Locator ref) \<and>
    repoFromSpdx (ext\<lparr>range_Packages := \<lambda>m. kpre @ [k]\<rparr>)
      (doc\<lparr>Packages := (Packages doc)(k \<mapsto> pkg\<lparr>PackageExternalReferences := rpre @ [ref]\<rparr>)\<rparr>) =
      repoFromSpdx ext doc) \<and>
   (range_visits (Packages doc) (range_Packages ext (Packages doc)) \<and>
    Packages doc k0 = Some p0 \<and>
    PackageName p0 = DocumentName (CreationInfo doc) \<and>
    (\<exists>x\<in>set (PackageExternalReferences p0). Category x = ''PACKAGE-MANAGER'') \<longrightarrow>
    (\<exists>k1 p1 r1 ref1 r2.
       Packages doc k1 = Some p1 \<and> PackageName p1 = DocumentName (CreationInfo doc) \<and>
       PackageExternalReferences p1 = r1 @ ref1 # r2 \<and>
       (\<forall>x\<in>set r1. Category x \<noteq> ''PACKAGE-MANAGER'') \<and>
       Category ref1 = ''PACKAGE-MANAGER'' \<and>
       repoFromSpdx ext doc = repoFromPurl ext (Locator ref1)))"
proof (intro conjI impI)
  assume a: "range_Packages ext (Packages doc) = kpre @ k # kpost \<and>
    (\<forall>k'\<in>set kpre. \<forall>p. Packages doc k' = Some p \<longrightarrow>
        PackageName p = DocumentName (CreationInfo doc) \<longrightarrow>
        (\<forall>x\<in>set (PackageExternalReferences p). Category x \<noteq> ''PACKAGE-MANAGER'')) \<and>
    Packages doc k = Some pkg \<and>
    PackageName pkg = DocumentName (CreationInfo doc) \<and>
    PackageExternalReferences pkg = rpre @ ref # rpost \<and>
    (\<forall>x\<in>set rpre. Category x \<noteq> ''PACKAGE-MANAGER'') \<and>
    Category ref = ''PACKAGE-MANAGER''"
  then have ks: "range_Packages ext (Packages doc) = kpre @ k # kpost"
    and pre: "\<forall>k'\<in>set kpre. \<forall>p. Packages doc k' = Some p \<longrightarrow>
        PackageName p = DocumentName (CreationInfo doc) \<longrightarrow>
        (\<forall>x\<in>set (PackageExternalReferences p). Category x \<noteq> ''PACKAGE-MANAGER'')"
    and at: "Packages doc k = Some pkg"
    and name: "PackageName pkg = DocumentName (CreationInfo doc)"
    and refs: "PackageExternalReferences pkg = rpre @ ref # rpost"
    and rpre: "\<forall>x\<in>set rpre. Category x \<noteq> ''PACKAGE-MANAGER''"
    and cat: "Category ref = ''PACKAGE-MANAGER''"
    by simp_all
  show full: "repoFromSpdx ext doc = repoFromPurl ext (Locator ref)"
    using ks pre at name refs rpre cat by (rule repoFromSpdx_visit)
  have notin: "k \<notin> set kpre"
    using pre at name refs cat by auto
  let ?ext = "ext\<lparr>range_Packages := \<lambda>m. kpre @ [k]\<rparr>"
  let ?pkg = "pkg\<lparr>PackageExternalReferences := rpre @ [ref]\<rparr>"
  let ?doc = "doc\<lparr>Packages := (Packages doc)(k \<mapsto> ?pkg)\<rparr>"
  have "repoFromSpdx ?ext ?doc = repoFromPurl ?ext (Locator ref)"
  proof (rule repoFromSpdx_visit)
    show "range_Packages ?ext (Packages ?doc) = kpre @ k # []" by simp
    show "\<forall>k'\<in>set kpre. \<forall>p. Packages ?doc k' = Some p \<longrightarrow>
        PackageName p = DocumentName (CreationInfo ?doc) \<longrightarrow>
        (\<forall>x\<in>set (PackageExternalReferences p). Category x \<noteq> ''PACKAGE-MANAGER'')"
      using pre notin by auto
    show "Packages ?doc k = Some ?pkg" by simp
    show "PackageName ?pkg = DocumentName (CreationInfo ?doc)" using name by simp
    show "PackageExternalReferences ?pkg = rpre @ ref # []" by simp
    show "\<forall>x\<in>set rpre. Category x \<noteq> ''PACKAGE-MANAGER''" by (rule rpre)
    show "Category ref = ''PACKAGE-MANAGER''" by (rule cat)
  qed
  moreover have "repoFromPurl ?ext (Locator ref) = repoFromPurl ext (Locator ref)"
    by (simp add: repoFromPurl_def Let_def split: sum.splits)
  ultimately show "repoFromSpdx ?ext ?doc = repoFromSpdx ext doc"
    using full by simp
next
  let ?d = "DocumentName (CreationInfo doc)"
  let ?Q = "\<lambda>p. PackageName p = ?d \<and>
      (\<exists>x\<in>set (PackageExternalReferences p). Category x = ''PACKAGE-MANAGER'')"
  let ?vs = "range_values (Packages doc) (range_Packages ext (Packages doc))"
  assume b: "range_visits (Packages doc) (range_Packages ext (Packages doc)) \<and>
    Packages doc k0 = Some p0 \<and>
    PackageName p0 = DocumentName (CreationInfo doc) \<and>
    (\<exists>x\<in>set (PackageExternalReferences p0). Category x = ''PACKAGE-MANAGER'')"
  then have "k0 \<in> set (range_Packages ext (Packages doc))"
    by (auto simp: range_visits_def)
  then obtain ka kb where "range_Packages ext (Packages doc) = ka @ k0 # kb"
    by (auto dest: split_list)
  with b have "p0 \<in> set ?vs"
    by (simp add: range_values_append)
  with b have "\<exists>p\<in>set ?vs. ?Q p" by blast
  then have "\<exists>pre p1 post. ?vs = pre @ p1 # post \<and> ?Q p1 \<and> (\<forall>p\<in>set pre. \<not> ?Q p)"
    by (rule split_list_first_prop [of ?vs ?Q])
  then obtain pre p1 post where vs: "?vs = pre @ p1 # post" and q: "?Q p1"
      and nq: "\<forall>p\<in>set pre. \<not> ?Q p"
    by blast
  from q have "\<exists>x\<in>set (PackageExternalReferences p1). Category x = ''PACKAGE-MANAGER''"
    by simp
  then have "\<exists>r1 ref1 r2. PackageExternalReferences p1 = r1 @ ref1 # r2 \<and>
      Category ref1 = ''PACKAGE-MANAGER'' \<and> (\<forall>x\<in>set r1. Category x \<noteq> ''PACKAGE-MANAGER'')"
    by (rule split_list_first_prop
        [of "PackageExternalReferences p1" "\<lambda>x. Category x = ''PACKAGE-MANAGER''"])
  then obtain r1 ref1 r2 where refs: "PackageExternalReferences p1 = r1 @ ref1 # r2"
      and cat: "Category ref1 = ''PACKAGE-MANAGER''"
      and r1: "\<forall>x\<in>set r1. Category x \<noteq> ''PACKAGE-MANAGER''"
    by blast
  have "p1 \<in> set ?vs" using vs by simp
  then obtain k1 where k1: "Packages doc k1 = Some p1"
    by (auto dest: range_values_key)
  have "pkgs_loop ext ?d (pre @ p1 # post) = Some (repoFromPurl ext (Locator ref1))"
    using nq q refs r1 cat by (intro pkgs_loop_hit) auto
  with vs have "repoFromSpdx ext doc = repoFromPurl ext (Locator ref1)"
    by (simp add: repoFromSpdx_def)
  with k1 q refs r1 cat show "\<exists>k1 p1 r1 ref1 r2.
       Packages doc k1 = Some p1 \<and> PackageName p1 = DocumentName (CreationInfo doc) \<and>
       PackageExternalReferences p1 = r1 @ ref1 # r2 \<and>
       (\<forall>x\<in>set r1. Category x \<noteq> ''PACKAGE-MANAGER'') \<and>
       Category ref1 = ''PACKAGE-MANAGER'' \<and>
       repoFromSpdx ext doc = repoFromPurl ext (Locator ref1)"
    by blast
qed

text \<open>The document \<open>example_spdx_two\<close>, with two candidate packages, in the run that visits
  the keys in ascending order and in the run that visits them in descending order.\<close>

theorem repoFromSpdx_first_match_witness:
  "repoFromSpdx example_ext example_spdx_two = repoFromPurl example_ext example_purl_old \<and>
   repoFromSpdx example_ext_reversed example_spdx_two =
     repoFromPurl example_ext_reversed example_purl \<and>
   (\<exists>k1 p1 r1 ref1 r2.
      Packages example_spdx_two k1 = Some p1 \<and>
      PackageName p1 = DocumentName (CreationInfo example_spdx_two) \<and>
      PackageExternalReferences p1 = r1 @ ref1 # r2 \<and>
      list_all (\<lambda>x. Category x \<noteq> ''PACKAGE-MANAGER'') r1 \<and>
      Category ref1 = ''PACKAGE-MANAGER'' \<and>
      repoFromSpdx example_ext example_spdx_two = repoFromPurl example_ext (Locator ref1))"
proof -
  have o1: "range_Packages example_ext (Packages example_spdx_two) =
      [] @ ''Package-1'' # [''Package-2'']"
    by (simp add: example_range_ext example_range_def example_spdx_two_def)
  have o2: "range_Packages example_ext_reversed (Packages example_spdx_two) =
      [] @ ''Package-2'' # [''Package-1'']"
    by (simp add: example_range_ext example_range_reversed_def example_spdx_two_def)
  have p1: "Packages example_spdx_two ''Package-1'' = Some example_pkg_old \<and>
      PackageName example_pkg_old = DocumentName (CreationInfo example_spdx_two) \<and>
      PackageExternalReferences example_pkg_old =
        [] @ \<lparr>Category = ''PACKAGE-MANAGER'', Locator = example_purl_old\<rparr> # []"
    by (simp add: example_spdx_two_def example_pkg_old_def)
  have p2: "Packages example_spdx_two ''Package-2'' = Some example_pkg_img \<and>
      PackageName example_pkg_img = DocumentName (CreationInfo example_spdx_two) \<and>
      PackageExternalReferences example_pkg_img =
        [\<lparr>Category = ''SECURITY'', Locator = ''cpe:2.3:a:img''\<rparr>] @
        \<lparr>Category = ''PACKAGE-MANAGER'', Locator = example_purl\<rparr> # []"
    by (simp add: example_spdx_two_def example_pkg_img_def)
  have v: "range_visits (Packages example_spdx_two)
      (range_Packages example_ext (Packages example_spdx_two))"
    by (simp add: example_spdx_two_def example_range_ext example_range_visits)
  have w1: "repoFromSpdx example_ext example_spdx_two = repoFromPurl example_ext example_purl_old"
    using repoFromSpdx_first_match [where ext = example_ext and doc = example_spdx_two
        and kpre = "[]" and k = "''Package-1''" and kpost = "[''Package-2'']"
        and pkg = example_pkg_old and rpre = "[]" and rpost = "[]"
        and ref = "\<lparr>Category = ''PACKAGE-MANAGER'', Locator = example_purl_old\<rparr>"]
      o1 p1
    by simp
  have w2: "repoFromSpdx example_ext_reversed example_spdx_two =
      repoFromPurl example_ext_reversed example_purl"
    using repoFromSpdx_first_match [where ext = example_ext_reversed and doc = example_spdx_two
        and kpre = "[]" and k = "''Package-2''" and kpost = "[''Package-1'']"
        and pkg = example_pkg_img
        and rpre = "[\<lparr>Category = ''SECURITY'', Locator = ''cpe:2.3:a:img''\<rparr>]" and rpost = "[]"
        and ref = "\<lparr>Category = ''PACKAGE-MANAGER'', Locator = example_purl\<rparr>"]
      o2 p2
    by simp
  have w3: "\<exists>k1 p1 r1 ref1 r2.
      Packages example_spdx_two k1 = Some p1 \<and>
      PackageName p1 = DocumentName (CreationInfo example_spdx_two) \<and>
      PackageExternalReferences p1 = r1 @ ref1 # r2 \<and>
      list_all (\<lambda>x. Category x \<noteq> ''PACKAGE-MANAGER'') r1 \<and>
      Category ref1 = ''PACKAGE-MANAGER'' \<and>
      repoFromSpdx example_ext example_spdx_two = repoFromPurl example_ext (Locator ref1)"
    using repoFromSpdx_first_match [where ext = example_ext and doc = example_spdx_two
        and ?k0.0 = "''Package-2''" and ?p0.0 = example_pkg_img] v p2
    by (simp add: list_all_iff)
  from w1 w2 w3 show ?thesis by (intro conjI)
qed

subsection \<open>C7: the errors of the SPDX strategy\<close>

text \<open>
  As stated, the claim gives the two failures different errors. A document without a
  package of its name and a document whose package of that name has no
  \<open>PACKAGE-MANAGER\<close> reference get the same result.
\<close>

theorem repoFromSpdx_errors_counterexample:
  "DocumentName (CreationInfo example_spdx_nomatch) = ''img'' \<and>
   Packages example_spdx_nomatch = [''Package-1'' \<mapsto> example_pkg_musl] \<and>
   PackageName example_pkg_musl = ''musl'' \<and>
   DocumentName (CreationInfo example_spdx_noref) = ''img'' \<and>
   Packages example_spdx_noref = [''Package-1'' \<mapsto> example_pkg_noref] \<and>
   PackageName example_pkg_noref = ''img'' \<and>
   map Category (PackageExternalReferences example_pkg_noref) = [''SECURITY''] \<and>
   repoFromSpdx example_ext example_spdx_nomatch = repoFromSpdx example_ext example_spdx_noref"
  by (simp add: example_repoFromSpdx)
    (simp add: example_spdx_nomatch_def example_spdx_noref_def example_pkg_musl_def
      example_pkg_noref_def)

text \<open>
  Claim C7, amended. \<open>repoFromSpdx\<close> has one error for both causes: whenever no package
  bearing the document's name has a \<open>PACKAGE-MANAGER\<close> reference, be it that no package
  bears the name or that those which do lack the reference, it fails with
  \<open>not found: repo uri\<close>, in every run.
\<close>

theorem repoFromSpdx_errors:
  assumes "\<forall>p\<in>ran (Packages doc). PackageName p = DocumentName (CreationInfo doc) \<longrightarrow>
             (\<forall>x\<in>set (PackageExternalReferences p). Category x \<noteq> ''PACKAGE-MANAGER'')"
  shows "repoFromSpdx ext doc = Inl (Errorf ''not found: repo uri'')"
proof -
  have "pkgs_loop ext (DocumentName (CreationInfo doc))
      (range_values (Packages doc) (range_Packages ext (Packages doc))) = None"
    using assms by (intro pkgs_loop_None) (auto dest: range_values_ran)
  then show ?thesis by (simp add: repoFromSpdx_def)
qed

text \<open>Both causes.\<close>

theorem repoFromSpdx_errors_witness:
  "repoFromSpdx example_ext example_spdx_nomatch = Inl (Errorf ''not found: repo uri'') \<and>
   repoFromSpdx example_ext example_spdx_noref = Inl (Errorf ''not found: repo uri'')"
proof -
  have h1: "\<forall>p\<in>ran (Packages example_spdx_nomatch).
      PackageName p = DocumentName (CreationInfo example_spdx_nomatch) \<longrightarrow>
      (\<forall>x\<in>set (PackageExternalReferences p). Category x \<noteq> ''PACKAGE-MANAGER'')"
    by (auto simp: example_spdx_nomatch_def example_pkg_musl_def ran_def split: if_splits)
  have h2: "\<forall>p\<in>ran (Packages example_spdx_noref).
      PackageName p = DocumentName (CreationInfo example_spdx_noref) \<longrightarrow>
      (\<forall>x\<in>set (PackageExternalReferences p). Category x \<noteq> ''PACKAGE-MANAGER'')"
    by (auto simp: example_spdx_noref_def example_pkg_noref_def ran_def split: if_splits)
  show ?thesis
    using repoFromSpdx_errors [OF h1, of example_ext] repoFromSpdx_errors [OF h2, of example_ext]
    by simp
qed

subsection \<open>C8: empty bytes\<close>

text \<open>
  As stated, the claim makes the builder fail on empty bytes. \<open>referrer.Image\<close> does not
  look at the bytes: with a \<open>mutate.Append\<close> that accepts the layer, it builds the
  manifest around one empty layer.
\<close>

theorem referrer_Image_empty_bytes_counterexample:
  "referrer_Image example_ext
     \<lparr>annotations = [''org.opencontainers.artifact.description'' \<mapsto> ''CycloneDX JSON SBOM''],
      mediaType = ''application/vnd.cyclonedx+json'', bytes = [],
      targetRepo = example_target,
      targetDesc = example_desc\<rparr> =
   Inr \<lparr>manifest_mediaType = ''application/vnd.oci.image.manifest.v1+json'',
        config_mediaType = ''application/vnd.cyclonedx+json'',
        layers = [\<lparr>layer_content = [], layer_mediaType = ''application/vnd.oci.image.layer.v1.tar''\<rparr>],
        manifest_annotations = [''org.opencontainers.artifact.description'' \<mapsto> ''CycloneDX JSON SBOM''],
        subject = Some example_desc\<rparr>"
  by (simp add: example_referrer_Image example_image_def)

text \<open>
  Claim C8, amended. \<open>referrer.Image\<close> fails exactly when \<open>mutate.Append\<close> rejects the
  layer, and then returns that error and no image; otherwise it returns the image, whose
  single layer holds the bytes, empty or not, and whose subject is the target descriptor.
\<close>

theorem referrer_Image_build_error:
  "(append_validate ext (static_NewLayer (bytes r) OCIUncompressedLayer) = Some err \<longrightarrow>
      referrer_Image ext r = Inl err) \<and>
   (append_validate ext (static_NewLayer (bytes r) OCIUncompressedLayer) = None \<longrightarrow>
      (\<exists>img. referrer_Image ext r = Inr img \<and> map layer_content (layers img) = [bytes r] \<and>
         subject img = Some (targetDesc r)))"
  by (simp add: referrer_Image_cases static_NewLayer_def)

text \<open>
  An append that rejects the layer, and empty bytes with an append that accepts it.
\<close>

theorem referrer_Image_build_error_witness:
  "referrer_Image example_ext_no_append example_referrer =
     Inl (Errorf ''unable to add a nil layer to the image'') \<and>
   (\<exists>img. referrer_Image example_ext (example_referrer\<lparr>bytes := []\<rparr>) = Inr img \<and>
      map layer_content (layers img) = [[]] \<and> subject img = Some example_desc)"
proof -
  have a1: "append_validate example_ext_no_append
      (static_NewLayer (bytes example_referrer) OCIUncompressedLayer) =
      Some (Errorf ''unable to add a nil layer to the image'')"
    by (simp add: example_ext_no_append_def)
  have a2: "append_validate example_ext
      (static_NewLayer (bytes (example_referrer\<lparr>bytes := []\<rparr>)) OCIUncompressedLayer) = None"
    by (simp add: example_ext_sel)
  have w1: "referrer_Image example_ext_no_append example_referrer =
     Inl (Errorf ''unable to add a nil layer to the image'')"
    using referrer_Image_build_error [where ext = example_ext_no_append and r = example_referrer
        and err = "Errorf ''unable to add a nil layer to the image''"] a1
    by simp
  have w2: "\<exists>img. referrer_Image example_ext (example_referrer\<lparr>bytes := []\<rparr>) = Inr img \<and>
      map layer_content (layers img) = [[]] \<and> subject img = Some example_desc"
    using referrer_Image_build_error [where ext = example_ext
        and r = "example_referrer\<lparr>bytes := []\<rparr>"] a2
    by (simp add: example_referrer_def)
  from w1 w2 show ?thesis by (intro conjI)
qed

subsection \<open>C9: the pipeline stops at the first error\<close>

text \<open>
  Claim C9. When a stage fails (reading, format detection, decoding, resolution in either
  dialect, an unsupported format, the descriptor lookup, the build or the tag), then
  \<open>putReferrer\<close> returns that stage's error and makes no call of \<open>remote.Write\<close>. When
  it does call \<open>remote.Write\<close>, every stage has succeeded, the call is the only one, it
  carries the tag and the image the stages produced, and its result is returned.
\<close>

theorem putReferrer_fail_fast:
  "(io_ReadAll r = Inl err \<longrightarrow> putReferrer ext r = (Some err, [])) \<and>
   (io_ReadAll r = Inr b \<and> sbom_DetectFormat ext b = Inl err \<longrightarrow>
      putReferrer ext r = (Some err, [])) \<and>
   (io_ReadAll r = Inr b \<and> sbom_DetectFormat ext b = Inr format \<and>
    sbom_Decode ext b format = Inl err \<longrightarrow>
      putReferrer ext r = (Some err, [])) \<and>
   (io_ReadAll r = Inr b \<and> sbom_DetectFormat ext b = Inr FormatCycloneDXJSON \<and>
    sbom_Decode ext b FormatCycloneDXJSON = Inr decoded \<and>
    repoFromPurl ext (BOMRef (Component (Metadata (CycloneDX decoded)))) = Inl err \<longrightarrow>
      putReferrer ext r = (Some err, [])) \<and>
   (io_ReadAll r = Inr b \<and> sbom_DetectFormat ext b = Inr FormatSPDXJSON \<and>
    sbom_Decode ext b FormatSPDXJSON = Inr decoded \<and>
    repoFromSpdx ext (SPDX decoded) = Inl err \<longrightarrow>
      putReferrer ext r = (Some err, [])) \<and>
   (io_ReadAll r = Inr b \<and> sbom_DetectFormat ext b = Inr (FormatOther s) \<and>
    sbom_Decode ext b (FormatOther s) = Inr decoded \<longrightarrow>
      putReferrer ext r = (Some (Errorf (''unsupported format: '' @ s)), [])) \<and>
   (io_ReadAll r = Inr b \<and> sbom_DetectFormat ext b = Inr FormatCycloneDXJSON \<and>
    sbom_Decode ext b FormatCycloneDXJSON = Inr decoded \<and>
    repoFromPurl ext (BOMRef (Component (Metadata (CycloneDX decoded)))) = Inr repo \<and>
    remote_Head ext repo = Inl err \<longrightarrow>
      putReferrer ext r = (Some err, [])) \<and>
   (io_ReadAll r = Inr b \<and> sbom_DetectFormat ext b = Inr FormatSPDXJSON \<and>
    sbom_Decode ext b FormatSPDXJSON = Inr decoded \<and>
    repoFromSpdx ext (SPDX decoded) = Inr repo \<and>
    remote_Head ext repo = Inl err \<longrightarrow>
      putReferrer ext r = (Some err, [])) \<and>
   (referrerFromSBOM ext r = Inr ref \<and> referrer_Image ext ref = Inl err \<longrightarrow>
      putReferrer ext r = (Some err, [])) \<and>
   (referrerFromSBOM ext r = Inr ref \<and> referrer_Image ext ref = Inr img \<and>
    referrer_Tag ext ref img = Inl err \<longrightarrow>
      putReferrer ext r = (Some err, [])) \<and>
   (snd (putReferrer ext r) \<noteq> [] \<longrightarrow>
      (\<exists>ref img tag. referrerFromSBOM ext r = Inr ref \<and> referrer_Image ext ref = Inr img \<and>
         referrer_Tag ext ref img = Inr tag \<and>
         putReferrer ext r = (remote_Write ext tag img, [(tag, img)])))"
proof -
  have s1: "io_ReadAll r = Inl err \<longrightarrow> putReferrer ext r = (Some err, [])"
    by (simp add: putReferrer_def referrerFromSBOM_def)
  have s2: "io_ReadAll r = Inr b \<and> sbom_DetectFormat ext b = Inl err \<longrightarrow>
      putReferrer ext r = (Some err, [])"
    by (simp add: putReferrer_def referrerFromSBOM_def)
  have s3: "io_ReadAll r = Inr b \<and> sbom_DetectFormat ext b = Inr format \<and>
      sbom_Decode ext b format = Inl err \<longrightarrow> putReferrer ext r = (Some err, [])"
    by (simp add: putReferrer_def referrerFromSBOM_def)
  have s4: "io_ReadAll r = Inr b \<and> sbom_DetectFormat ext b = Inr FormatCycloneDXJSON \<and>
      sbom_Decode ext b FormatCycloneDXJSON = Inr decoded \<and>
      repoFromPurl ext (BOMRef (Component (Metadata (CycloneDX decoded)))) = Inl err \<longrightarrow>
      putReferrer ext r = (Some err, [])"
    by (simp add: putReferrer_def referrerFromSBOM_def)
  have s5: "io_ReadAll r = Inr b \<and> sbom_DetectFormat ext b = Inr FormatSPDXJSON \<and>
      sbom_Decode ext b FormatSPDXJSON = Inr decoded \<and>
      repoFromSpdx ext (SPDX decoded) = Inl err \<longrightarrow> putReferrer ext r = (Some err, [])"
    by (simp add: putReferrer_def referrerFromSBOM_def)
  have s6: "io_ReadAll r = Inr b \<and> sbom_DetectFormat ext b = Inr (FormatOther s) \<and>
      sbom_Decode ext b (FormatOther s) = Inr decoded \<longrightarrow>
      putReferrer ext r = (Some (Errorf (''unsupported format: '' @ s)), [])"
    by (simp add: putReferrer_def referrerFromSBOM_def)
  have s7: "io_ReadAll r = Inr b \<and> sbom_DetectFormat ext b = Inr FormatCycloneDXJSON \<and>
      sbom_Decode ext b FormatCycloneDXJSON = Inr decoded \<and>
      repoFromPurl ext (BOMRef (Component (Metadata (CycloneDX decoded)))) = Inr repo \<and>
      remote_Head ext repo = Inl err \<longrightarrow> putReferrer ext r = (Some err, [])"
    by (simp add: putReferrer_def referrerFromSBOM_def)
  have s8: "io_ReadAll r = Inr b \<and> sbom_DetectFormat ext b = Inr FormatSPDXJSON \<and>
      sbom_Decode ext b FormatSPDXJSON = Inr decoded \<and>
      repoFromSpdx ext (SPDX decoded) = Inr repo \<and>
      remote_Head ext repo = Inl err \<longrightarrow> putReferrer ext r = (Some err, [])"
    by (simp add: putReferrer_def referrerFromSBOM_def)
  have s9: "referrerFromSBOM ext r = Inr ref \<and> referrer_Image ext ref = Inl err \<longrightarrow>
      putReferrer ext r = (Some err, [])"
    by (simp add: putReferrer_def)
  have s10: "referrerFromSBOM ext r = Inr ref \<and> referrer_Image ext ref = Inr img \<and>
      referrer_Tag ext ref img = Inl err \<longrightarrow> putReferrer ext r = (Some err, [])"
    by (simp add: putReferrer_def)
  have s11: "snd (putReferrer ext r) \<noteq> [] \<longrightarrow>
      (\<exists>ref img tag. referrerFromSBOM ext r = Inr ref \<and> referrer_Image ext ref = Inr img \<and>
         referrer_Tag ext ref img = Inr tag \<and>
         putReferrer ext r = (remote_Write ext tag img, [(tag, img)]))"
    unfolding putReferrer_def by (auto split: sum.splits option.splits)
  show ?thesis
    by (intro conjI s1 s2 s3 s4 s5 s6 s7 s8 s9 s10 s11)
qed

text \<open>
  One input for each stage that fails, and one that is pushed.
\<close>

theorem putReferrer_fail_fast_witness:
  "putReferrer example_ext (Inl (Errorf ''unexpected EOF'')) = (Some (Errorf ''unexpected EOF''), []) \<and>
   putReferrer example_ext (Inr []) = (Some (Errorf ''EOF''), []) \<and>
   putReferrer example_ext (Inr [1]) = (Some (Errorf ''unexpected end of JSON input''), []) \<and>
   putReferrer example_ext_bad_purl (Inr [1, 0]) = (Some (Errorf ''purl is missing type or name''), []) \<and>
   putReferrer example_ext_bad_purl (Inr [2, 0]) = (Some (Errorf ''purl is missing type or name''), []) \<and>
   putReferrer example_ext (Inr [3, 0]) = (Some (Errorf ''unsupported format: spdx-tv''), []) \<and>
   putReferrer example_ext_no_head (Inr [1, 0]) = (Some (Errorf ''MANIFEST_UNKNOWN''), []) \<and>
   putReferrer example_ext_no_head (Inr [2, 0]) = (Some (Errorf ''MANIFEST_UNKNOWN''), []) \<and>
   putReferrer example_ext_no_append (Inr [1, 0]) =
     (Some (Errorf ''unable to add a nil layer to the image''), []) \<and>
   putReferrer example_ext_no_digest (Inr [1, 0]) = (Some (Errorf ''json: unsupported value''), []) \<and>
   (\<exists>ref img tag. referrerFromSBOM example_ext (Inr [1, 0]) = Inr ref \<and>
      referrer_Image example_ext ref = Inr img \<and> referrer_Tag example_ext ref img = Inr tag \<and>
      putReferrer example_ext (Inr [1, 0]) = (remote_Write example_ext tag img, [(tag, img)]))"
proof -
  have w1: "putReferrer example_ext (Inl (Errorf ''unexpected EOF'')) =
      (Some (Errorf ''unexpected EOF''), [])"
    using putReferrer_fail_fast [where r = "Inl (Errorf ''unexpected EOF'')"
        and err = "Errorf ''unexpected EOF''" and ext = example_ext]
    by (simp add: example_stages)
  have w2: "putReferrer example_ext (Inr []) = (Some (Errorf ''EOF''), [])"
    using putReferrer_fail_fast [where r = "Inr []" and b = "[]" and err = "Errorf ''EOF''"
        and ext = example_ext]
    by (simp add: example_stages)
  have w3: "putReferrer example_ext (Inr [1]) = (Some (Errorf ''unexpected end of JSON input''), [])"
    using putReferrer_fail_fast [where r = "Inr [1]" and b = "[1]"
        and format = FormatCycloneDXJSON
        and err = "Errorf ''unexpected end of JSON input''" and ext = example_ext]
    by (simp add: example_stages)
  have w4: "putReferrer example_ext_bad_purl (Inr [1, 0]) =
      (Some (Errorf ''purl is missing type or name''), [])"
    using putReferrer_fail_fast [where r = "Inr [1, 0]" and b = "[1, 0]"
        and decoded = "\<lparr>CycloneDX = example_cdx, SPDX = example_spdx\<rparr>"
        and err = "Errorf ''purl is missing type or name''" and ext = example_ext_bad_purl]
    by (simp add: example_stages example_bad_purl)
  have w5: "putReferrer example_ext_bad_purl (Inr [2, 0]) =
      (Some (Errorf ''purl is missing type or name''), [])"
    using putReferrer_fail_fast [where r = "Inr [2, 0]" and b = "[2, 0]"
        and decoded = "\<lparr>CycloneDX = example_cdx, SPDX = example_spdx\<rparr>"
        and err = "Errorf ''purl is missing type or name''" and ext = example_ext_bad_purl]
    by (simp add: example_stages example_bad_purl)
  have w6: "putReferrer example_ext (Inr [3, 0]) = (Some (Errorf ''unsupported format: spdx-tv''), [])"
    using putReferrer_fail_fast [where r = "Inr [3, 0]" and b = "[3, 0]" and s = "''spdx-tv''"
        and decoded = "\<lparr>CycloneDX = example_cdx, SPDX = example_spdx\<rparr>" and ext = example_ext]
    by (simp add: example_stages)
  have w7: "putReferrer example_ext_no_head (Inr [1, 0]) = (Some (Errorf ''MANIFEST_UNKNOWN''), [])"
    using putReferrer_fail_fast [where r = "Inr [1, 0]" and b = "[1, 0]"
        and decoded = "\<lparr>CycloneDX = example_cdx, SPDX = example_spdx\<rparr>"
        and repo = example_target
        and err = "Errorf ''MANIFEST_UNKNOWN''" and ext = example_ext_no_head]
    by (simp add: example_stages example_no_head)
  have w8: "putReferrer example_ext_no_head (Inr [2, 0]) = (Some (Errorf ''MANIFEST_UNKNOWN''), [])"
    using putReferrer_fail_fast [where r = "Inr [2, 0]" and b = "[2, 0]"
        and decoded = "\<lparr>CycloneDX = example_cdx, SPDX = example_spdx\<rparr>"
        and repo = example_target
        and err = "Errorf ''MANIFEST_UNKNOWN''" and ext = example_ext_no_head]
    by (simp add: example_stages example_no_head)
  have w9: "putReferrer example_ext_no_append (Inr [1, 0]) =
      (Some (Errorf ''unable to add a nil layer to the image''), [])"
    using putReferrer_fail_fast [where r = "Inr [1, 0]" and ref = example_referrer
        and err = "Errorf ''unable to add a nil layer to the image''"
        and ext = example_ext_no_append]
    by (simp add: example_no_append)
  have w10: "putReferrer example_ext_no_digest (Inr [1, 0]) =
      (Some (Errorf ''json: unsupported value''), [])"
    using putReferrer_fail_fast [where r = "Inr [1, 0]" and ref = example_referrer
        and img = "example_image [1, 0] ''application/vnd.cyclonedx+json'' ''CycloneDX JSON SBOM''"
        and err = "Errorf ''json: unsupported value''"
        and ext = example_ext_no_digest]
    by (simp add: example_no_digest)
  have w11: "\<exists>ref img tag. referrerFromSBOM example_ext (Inr [1, 0]) = Inr ref \<and>
      referrer_Image example_ext ref = Inr img \<and> referrer_Tag example_ext ref img = Inr tag \<and>
      putReferrer example_ext (Inr [1, 0]) = (remote_Write example_ext tag img, [(tag, img)])"
  proof -
    have "snd (putReferrer example_ext (Inr [1, 0])) \<noteq> []"
      by (simp add: example_putReferrer)
    with putReferrer_fail_fast [where r = "Inr [1, 0]" and ext = example_ext]
    show ?thesis by simp
  qed
  from w1 w2 w3 w4 w5 w6 w7 w8 w9 w10 w11 show ?thesis
    by (intro conjI)
qed

subsection \<open>C10: the constants\<close>



end
